theory Spec2Isabelle
  imports Main
begin

section \<open>Python values\<close>

text \<open>
  A Python \<open>str\<close> is a sequence of Unicode code points, so it is modelled as a list of
  natural numbers. \<open>str_lit\<close> embeds an ASCII literal of the source; literals with
  Cyrillic letters or pictographs are written out as code points further down.
\<close>

type_synonym pystr = "nat list"

definition str_lit :: "string \<Rightarrow> pystr" where
  "str_lit s = map of_char s"

text \<open>\<open>x or default\<close> on an optional string: \<open>None\<close> and the empty string are false.\<close>

definition or_else :: "pystr option \<Rightarrow> pystr \<Rightarrow> pystr" where
  "or_else v d = (case v of None \<Rightarrow> d | Some s \<Rightarrow> if s = [] then d else s)"

text \<open>
  \<open>str.strip()\<close> removes the code points that \<open>str.isspace\<close> accepts from both ends;
  \<open>str.lstrip(chars)\<close> removes every leading code point that occurs in \<open>chars\<close>.
\<close>

definition isspace :: "nat \<Rightarrow> bool" where
  "isspace c \<longleftrightarrow>
     (9 \<le> c \<and> c \<le> 13) \<or> (28 \<le> c \<and> c \<le> 32) \<or> c = 133 \<or> c = 160 \<or> c = 5760 \<or>
     (8192 \<le> c \<and> c \<le> 8202) \<or> c = 8232 \<or> c = 8233 \<or> c = 8239 \<or> c = 8287 \<or> c = 12288"

definition strip :: "pystr \<Rightarrow> pystr" where
  "strip s = rev (dropWhile isspace (rev (dropWhile isspace s)))"

definition lstrip :: "pystr \<Rightarrow> pystr \<Rightarrow> pystr" where
  "lstrip chars s = dropWhile (\<lambda>c. c \<in> set chars) s"

text \<open>\<open>str(i)\<close> for an integer, as an f-string renders it.\<close>

fun str_nat :: "nat \<Rightarrow> pystr" where
  "str_nat n = (if n < 10 then [48 + n] else str_nat (n div 10) @ [48 + n mod 10])"

declare str_nat.simps [simp del]

definition str_int :: "int \<Rightarrow> pystr" where
  "str_int i = (if i < 0 then 45 # str_nat (nat (- i)) else str_nat (nat i))"

datatype py_exception =
  UniqueViolationError | PostgresError | AttributeError | TelegramAPIError | KeyError

section \<open>Stored entities and the entity store\<close>

text \<open>
  A channel row is read by index in the source: 0 is the chat id, 1 the name, 2 the public
  handle, 3 the active-status text, 5 the URL. Index 4 is never read by the code and is
  left out. A bot row has 0 the name, 1 the handle, 2 the status text, 3 the URL.
\<close>

record channel =
  c_id :: int
  c_name :: pystr
  c_username :: "pystr option"
  c_status :: pystr
  c_url :: pystr

record bot =
  b_name :: pystr
  b_username :: pystr
  b_status :: pystr
  b_url :: pystr

record database =
  channels :: "channel list"
  bots :: "bot list"

text \<open>Every call on the store, with its arguments, as the handlers issue it.\<close>

datatype db_call =
  Get_all_channels
| Get_all_bots
| Get_channel "int option"
| Add_channel int pystr pystr pystr
| Update_channel_status pystr int
| Get_bot "pystr option"
| Add_bot pystr pystr pystr
| Update_bot_status pystr pystr

text \<open>
  What lies outside the handlers: which store calls fail with a storage error other than
  a duplicate key, and the status text a newly added row receives.
\<close>

record env =
  fails :: "db_call \<Rightarrow> bool"
  initial_status :: pystr

text \<open>
  Modelled from the spec: the classes \<open>ChannelActions\<close> and \<open>BotActions\<close>
  (\<open>src.app.database.queries\<close>) are not part of the sources at hand. The spec gives their
  contract: \<open>get(key)\<close> returns the entity or absent, \<open>get_all()\<close> returns the sequence of
  entities, \<open>add(fields)\<close> fails with a duplicate-key error if the identifier or handle is
  already present, \<open>update_status(new_status, key)\<close> updates the entity or is a no-op if it
  is absent. The rows are kept as a list in the order \<open>get_all\<close> returns them.
\<close>

definition get_channel :: "database \<Rightarrow> int \<Rightarrow> channel option" where
  "get_channel d k = find (\<lambda>c. c_id c = k) (channels d)"

definition add_channel ::
  "pystr \<Rightarrow> database \<Rightarrow> int \<Rightarrow> pystr \<Rightarrow> pystr \<Rightarrow> pystr \<Rightarrow> py_exception + database" where
  "add_channel init d cid name uname url =
     (case get_channel d cid of
        Some _ \<Rightarrow> Inl UniqueViolationError
      | None \<Rightarrow> Inr (d\<lparr>channels := channels d @
          [\<lparr>c_id = cid, c_name = name, c_username = Some uname, c_status = init,
            c_url = url\<rparr>]\<rparr>))"

definition update_channel_status :: "database \<Rightarrow> pystr \<Rightarrow> int \<Rightarrow> database" where
  "update_channel_status d new_status k =
     d\<lparr>channels := map (\<lambda>c. if c_id c = k then c\<lparr>c_status := new_status\<rparr> else c) (channels d)\<rparr>"

definition get_bot :: "database \<Rightarrow> pystr \<Rightarrow> bot option" where
  "get_bot d k = find (\<lambda>b. b_username b = k) (bots d)"

definition add_bot ::
  "pystr \<Rightarrow> database \<Rightarrow> pystr \<Rightarrow> pystr \<Rightarrow> pystr \<Rightarrow> py_exception + database" where
  "add_bot init d name uname url =
     (case get_bot d uname of
        Some _ \<Rightarrow> Inl UniqueViolationError
      | None \<Rightarrow> Inr (d\<lparr>bots := bots d @
          [\<lparr>b_name = name, b_username = uname, b_status = init, b_url = url\<rparr>]\<rparr>))"

definition update_bot_status :: "database \<Rightarrow> pystr \<Rightarrow> pystr \<Rightarrow> database" where
  "update_bot_status d new_status k =
     d\<lparr>bots := map (\<lambda>b. if b_username b = k then b\<lparr>b_status := new_status\<rparr> else b) (bots d)\<rparr>"

definition get_all_channels :: "database \<Rightarrow> channel list" where
  "get_all_channels d = channels d"

definition get_all_bots :: "database \<Rightarrow> bot list" where
  "get_all_bots d = bots d"

section \<open>Incoming events\<close>

record chat =
  chat_id :: int
  full_name :: "pystr option"
  username :: "pystr option"

record message =
  forward_from_chat :: "chat option"
  msg_text :: "pystr option"
  from_user :: "int option"

record callback_query =
  cq_from_user :: int

section \<open>The membership gate (check_sub_channel.py)\<close>

text \<open>
  \<open>bot.get_chat_member(chat, user)\<close> is the platform's endpoint: it answers with the
  \<open>status\<close> text of the member object, or raises (\<open>None\<close>). \<open>queried\<close> lists the
  (chat, user) pairs the endpoint was called with, in call order; \<open>reply\<close> holds the two
  arguments handed to \<open>not_channels_button\<close>, or the exception that left the handler.
\<close>

type_synonym chat_member_api = "int \<Rightarrow> int \<Rightarrow> pystr option"

record gate_result =
  queried :: "(int \<times> int) list"
  reply :: "py_exception + (channel list \<times> bot list)"

definition subscribed_roles :: "pystr list" where
  "subscribed_roles = [str_lit ''member'', str_lit ''administrator'', str_lit ''creator'']"

text \<open>The \<open>for channel in channel_data\<close> loop; \<open>user\<close> is \<open>from_user\<close>, read on each query.\<close>

fun not_sub_loop ::
  "chat_member_api \<Rightarrow> int option \<Rightarrow> channel list \<Rightarrow> (int \<times> int) list \<Rightarrow> channel list
     \<Rightarrow> (int \<times> int) list \<times> (py_exception + channel list)" where
  "not_sub_loop api user [] q not_sub_channels = (q, Inr not_sub_channels)"
| "not_sub_loop api user (channel # rest) q not_sub_channels =
     (if c_status channel = str_lit ''True'' then
        (case user of
           None \<Rightarrow> (q, Inl AttributeError)
         | Some uid \<Rightarrow>
            (case api (c_id channel) uid of
               None \<Rightarrow> (q @ [(c_id channel, uid)], Inl TelegramAPIError)
             | Some user_status \<Rightarrow>
                if user_status \<notin> set subscribed_roles
                then not_sub_loop api user rest (q @ [(c_id channel, uid)])
                       (not_sub_channels @ [channel])
                else not_sub_loop api user rest (q @ [(c_id channel, uid)]) not_sub_channels))
      else not_sub_loop api user rest q not_sub_channels)"

definition check_sub :: "env \<Rightarrow> chat_member_api \<Rightarrow> int option \<Rightarrow> database \<Rightarrow> gate_result" where
  "check_sub e api user d =
     (if fails e Get_all_channels then \<lparr>queried = [], reply = Inl PostgresError\<rparr>
      else if fails e Get_all_bots then \<lparr>queried = [], reply = Inl PostgresError\<rparr>
      else (case not_sub_loop api user (get_all_channels d) [] [] of
              (q, Inl ex) \<Rightarrow> \<lparr>queried = q, reply = Inl ex\<rparr>
            | (q, Inr not_sub_channels) \<Rightarrow>
                \<lparr>queried = q, reply = Inr (not_sub_channels, get_all_bots d)\<rparr>))"

definition check_channel_sub_message ::
  "env \<Rightarrow> chat_member_api \<Rightarrow> message \<Rightarrow> database \<Rightarrow> gate_result" where
  "check_channel_sub_message e api msg d = check_sub e api (from_user msg) d"

definition check_channel_sub_call ::
  "env \<Rightarrow> chat_member_api \<Rightarrow> callback_query \<Rightarrow> database \<Rightarrow> gate_result" where
  "check_channel_sub_call e api call d = check_sub e api (Some (cq_from_user call)) d"

text \<open>The set of channels the gate reports for a user whose queries all answer.\<close>

definition unsatisfied :: "chat_member_api \<Rightarrow> int \<Rightarrow> channel \<Rightarrow> bool" where
  "unsatisfied api uid c \<longleftrightarrow>
     c_status c = str_lit ''True'' \<and>
     (case api (c_id c) uid of None \<Rightarrow> False | Some r \<Rightarrow> r \<notin> set subscribed_roles)"

definition active :: "channel \<Rightarrow> bool" where
  "active c \<longleftrightarrow> c_status c = str_lit ''True''"

section \<open>The dialog manager\<close>

datatype dstate =
  OPMenu_menu
| AddChannelState_get_channel_data
| AddChannelState_get_channel_link
| AddBotState_get_bot_name
| AddBotState_get_bot_username
| AddBotState_get_bot_link
| BotMenu_menu
| BotMenu_delete_bot
| ChannelMenu_menu
| ChannelMenu_delete_channel

text \<open>The dictionary stashed under \<open>"channel_data"\<close> by the forward step.\<close>

record channel_data =
  cd_channel_name :: pystr
  cd_channel_id :: int
  cd_channel_username :: pystr

text \<open>
  \<open>dialog_manager.dialog_data\<close> is a dictionary; the handlers use the five keys below, and
  a key that is not set reads as \<open>None\<close> through \<open>.get\<close>. \<open>start_data\<close> is the dictionary
  a dialog was started with, or \<open>None\<close>.
\<close>

record dialog_data =
  dd_msg_type :: "pystr option"
  dd_channel_data :: "channel_data option"
  dd_channel_id :: "int option"
  dd_bot_username :: "pystr option"
  dd_bot_url :: "pystr option"

record start_data =
  sd_channel_id :: "int option"
  sd_bot_username :: "pystr option"

record dialog_context =
  ctx_state :: dstate
  ctx_start_data :: "start_data option"
  ctx_dialog_data :: dialog_data

text \<open>
  The manager holds a stack of dialog contexts: the current one and those below it.
  \<open>switch_to(state)\<close> changes the state of the current one; \<open>done()\<close> and
  \<open>start(state)\<close> follow the windows, since both draw one.
\<close>

record manager =
  current :: dialog_context
  stack :: "dialog_context list"

definition empty_dialog_data :: dialog_data where
  "empty_dialog_data =
     \<lparr>dd_msg_type = None, dd_channel_data = None, dd_channel_id = None,
      dd_bot_username = None, dd_bot_url = None\<rparr>"

text \<open>
  A handler runs on the store, the manager and the record of the store calls issued so
  far (each call is recorded when it is issued, whatever its outcome).
\<close>

record world =
  db :: database
  mgr :: manager
  calls :: "db_call list"

definition dialog_data :: "world \<Rightarrow> dialog_data" where
  "dialog_data w = ctx_dialog_data (current (mgr w))"

definition set_dialog_data :: "(dialog_data \<Rightarrow> dialog_data) \<Rightarrow> world \<Rightarrow> world" where
  "set_dialog_data f w =
     w\<lparr>mgr := (mgr w)\<lparr>current := (current (mgr w))
        \<lparr>ctx_dialog_data := f (ctx_dialog_data (current (mgr w)))\<rparr>\<rparr>\<rparr>"

definition set_msg_type :: "pystr \<Rightarrow> world \<Rightarrow> world" where
  "set_msg_type v w = set_dialog_data (\<lambda>dd. dd\<lparr>dd_msg_type := Some v\<rparr>) w"

definition switch_to :: "dstate \<Rightarrow> world \<Rightarrow> world" where
  "switch_to st w = w\<lparr>mgr := (mgr w)\<lparr>current := (current (mgr w))\<lparr>ctx_state := st\<rparr>\<rparr>\<rparr>"

definition log_call :: "db_call \<Rightarrow> world \<Rightarrow> world" where
  "log_call c w = w\<lparr>calls := calls w @ [c]\<rparr>"

text \<open>The store calls made between two worlds of one run.\<close>

definition calls_made :: "world \<Rightarrow> world \<Rightarrow> db_call list" where
  "calls_made w w' = drop (length (calls w)) (calls w')"

text \<open>A store call as the handler sees it: a storage fault of the environment, or the store's answer.\<close>

definition run_add_channel ::
  "env \<Rightarrow> database \<Rightarrow> int \<Rightarrow> pystr \<Rightarrow> pystr \<Rightarrow> pystr \<Rightarrow> py_exception + database" where
  "run_add_channel e d cid name uname url =
     (if fails e (Add_channel cid name uname url) then Inl PostgresError
      else add_channel (initial_status e) d cid name uname url)"

definition run_add_bot ::
  "env \<Rightarrow> database \<Rightarrow> pystr \<Rightarrow> pystr \<Rightarrow> pystr \<Rightarrow> py_exception + database" where
  "run_add_bot e d name uname url =
     (if fails e (Add_bot name uname url) then Inl PostgresError
      else add_bot (initial_status e) d name uname url)"

section \<open>Views (getters.py)\<close>

text \<open>
  The literals of the getters, as code points: the source writes them with Cyrillic
  letters and pictographs.
\<close>

text \<open>The placeholder text of an absent channel.\<close>

definition lit_channel_not_found :: pystr where
  "lit_channel_not_found =
    [10060, 32, 1050, 1072, 1085, 1072, 1083, 32, 1085, 1077, 32, 1085, 1072, 1081, 1076,
     1077, 1085]"

text \<open>The placeholder text of an absent bot.\<close>

definition lit_bot_not_found :: pystr where
  "lit_bot_not_found =
    [10060, 32, 1041, 1086, 1090, 32, 1085, 1077, 32, 1085, 1072, 1081, 1076, 1077, 1085]"

text \<open>The button label of an absent entity: an em dash.\<close>

definition lit_dash :: pystr where
  "lit_dash =
    [8212]"

text \<open>The button label of an active entity (remove from the set).\<close>

definition lit_remove_from_op :: pystr where
  "lit_remove_from_op =
    [128683, 32, 1059, 1073, 1088, 1072, 1090, 1100, 32, 1080, 1079, 32, 1054, 1055]"

text \<open>The button label of an inactive entity (add to the set).\<close>

definition lit_add_to_op :: pystr where
  "lit_add_to_op =
    [10133, 32, 1044, 1086, 1073, 1072, 1074, 1080, 1090, 1100, 32, 1074, 32, 1054, 1055]"

text \<open>Heading of the channel card.\<close>

definition lit_channel_head :: pystr where
  "lit_channel_head =
    [128226, 32, 60, 98, 62, 1055, 1086, 1083, 1085, 1072, 1103, 32, 1080, 1085, 1092,
     1086, 1088, 1084, 1072, 1094, 1080, 1103, 32, 1086, 32, 1082, 1072, 1085, 1072, 1083,
     1077, 60, 47, 98, 62, 10, 10]"

text \<open>Heading of the bot card.\<close>

definition lit_bot_head :: pystr where
  "lit_bot_head =
    [129302, 32, 60, 98, 62, 1055, 1086, 1083, 1085, 1072, 1103, 32, 1080, 1085, 1092,
     1086, 1088, 1084, 1072, 1094, 1080, 1103, 32, 1086, 32, 1073, 1086, 1090, 1077, 60,
     47, 98, 62, 10, 10]"

text \<open>Before the chat id.\<close>

definition lit_id_open :: pystr where
  "lit_id_open =
    [127380, 32, 60, 98, 62, 73, 68, 58, 60, 47, 98, 62, 32, 60, 99, 111, 100, 101, 62]"

text \<open>After the chat id.\<close>

definition lit_id_close :: pystr where
  "lit_id_close =
    [60, 47, 99, 111, 100, 101, 62, 10]"

text \<open>Before the name.\<close>

definition lit_name :: pystr where
  "lit_name =
    [128219, 32, 60, 98, 62, 1053, 1072, 1079, 1074, 1072, 1085, 1080, 1077, 58, 60, 47,
     98, 62, 32]"

text \<open>Before the handle.\<close>

definition lit_username :: pystr where
  "lit_username =
    [128279, 32, 60, 98, 62, 85, 115, 101, 114, 110, 97, 109, 101, 58, 60, 47, 98, 62, 32,
     64]"

text \<open>Shown for a missing handle.\<close>

definition lit_not_given :: pystr where
  "lit_not_given =
    [1085, 1077, 32, 1091, 1082, 1072, 1079, 1072, 1085]"

text \<open>Before the status mark.\<close>

definition lit_status :: pystr where
  "lit_status =
    [128246, 32, 60, 98, 62, 1057, 1090, 1072, 1090, 1091, 1089, 32, 1074, 32, 1054, 1055,
     58, 60, 47, 98, 62, 32]"

text \<open>Status mark of an active entity.\<close>

definition lit_active :: pystr where
  "lit_active =
    [9989, 32, 1040, 1082, 1090, 1080, 1074, 1077, 1085]"

text \<open>Status mark of an inactive entity.\<close>

definition lit_inactive :: pystr where
  "lit_inactive =
    [10060, 32, 1053, 1077, 1072, 1082, 1090, 1080, 1074, 1077, 1085]"

text \<open>Before the URL.\<close>

definition lit_link :: pystr where
  "lit_link =
    [128279, 32, 60, 98, 62, 1057, 1089, 1099, 1083, 1082, 1072, 58, 60, 47, 98, 62, 32]"

record channel_view =
  cv_channel_data :: pystr
  cv_op_button :: pystr

record bot_view =
  bv_bot_data :: pystr
  bv_op_button :: pystr

text \<open>\<open>dialog_data.get("msg_type", "start_msg")\<close>, the value both add-flow getters return.\<close>

definition get_add_channel_data :: "world \<Rightarrow> pystr" where
  "get_add_channel_data w =
     (case dd_msg_type (dialog_data w) of None \<Rightarrow> str_lit ''start_msg'' | Some v \<Rightarrow> v)"

definition get_add_bot_data :: "world \<Rightarrow> pystr" where
  "get_add_bot_data w =
     (case dd_msg_type (dialog_data w) of None \<Rightarrow> str_lit ''start_msg'' | Some v \<Rightarrow> v)"

text \<open>
  The detail getters have no \<open>try\<close>: \<open>start_data.get\<close> on a dialog started without data
  and a failing store call leave the getter as exceptions. A key of \<open>None\<close> matches no row.
\<close>

definition get_channel_info_data :: "env \<Rightarrow> world \<Rightarrow> (py_exception + channel_view) \<times> world" where
  "get_channel_info_data e w =
     (case ctx_start_data (current (mgr w)) of
        None \<Rightarrow> (Inl AttributeError, w)
      | Some sd \<Rightarrow>
          let channel_id = sd_channel_id sd;
              w1 = set_dialog_data (\<lambda>dd. dd\<lparr>dd_channel_id := channel_id\<rparr>) w;
              w2 = log_call (Get_channel channel_id) w1
          in if fails e (Get_channel channel_id) then (Inl PostgresError, w2)
             else (case (case channel_id of None \<Rightarrow> None | Some k \<Rightarrow> get_channel (db w2) k) of
                     None \<Rightarrow>
                       (Inr \<lparr>cv_channel_data = lit_channel_not_found, cv_op_button = lit_dash\<rparr>, w2)
                   | Some channel_data \<Rightarrow>
                       let is_in_op = (c_status channel_data = str_lit ''True'');
                           op_button = (if is_in_op then lit_remove_from_op else lit_add_to_op);
                           channel_info =
                             lit_channel_head @
                             lit_id_open @ str_int (c_id channel_data) @ lit_id_close @
                             lit_name @ c_name channel_data @ [10] @
                             lit_username @ or_else (c_username channel_data) lit_not_given @ [10] @
                             lit_status @ (if is_in_op then lit_active else lit_inactive) @ [10] @
                             lit_link @ c_url channel_data @ [10]
                       in (Inr \<lparr>cv_channel_data = channel_info, cv_op_button = op_button\<rparr>, w2)))"

definition get_bot_info_data :: "env \<Rightarrow> world \<Rightarrow> (py_exception + bot_view) \<times> world" where
  "get_bot_info_data e w =
     (case ctx_start_data (current (mgr w)) of
        None \<Rightarrow> (Inl AttributeError, w)
      | Some sd \<Rightarrow>
          let bot_username = sd_bot_username sd;
              w1 = set_dialog_data (\<lambda>dd. dd\<lparr>dd_bot_username := bot_username\<rparr>) w;
              w2 = log_call (Get_bot bot_username) w1
          in if fails e (Get_bot bot_username) then (Inl PostgresError, w2)
             else (case (case bot_username of None \<Rightarrow> None | Some k \<Rightarrow> get_bot (db w2) k) of
                     None \<Rightarrow> (Inr \<lparr>bv_bot_data = lit_bot_not_found, bv_op_button = lit_dash\<rparr>, w2)
                   | Some bot_data \<Rightarrow>
                       let is_in_op = (b_status bot_data = str_lit ''True'');
                           op_button = (if is_in_op then lit_remove_from_op else lit_add_to_op);
                           bot_info =
                             lit_bot_head @
                             lit_name @ b_name bot_data @ [10] @
                             lit_username @ b_username bot_data @ [10] @
                             lit_status @ (if is_in_op then lit_active else lit_inactive) @ [10] @
                             lit_link @ b_url bot_data @ [10]
                       in (Inr \<lparr>bv_bot_data = bot_info, bv_op_button = op_button\<rparr>, w2)))"

text \<open>
  The getter of the OP menu reads both tables, outside any \<open>try\<close>: a failing read leaves
  the getter as an exception.
\<close>

record op_menu_data =
  od_channel_data :: "channel list"
  od_bot_data :: "bot list"
  od_msg_type :: pystr
  od_has_channels :: bool
  od_has_bots :: bool

definition get_op_menu_data :: "env \<Rightarrow> world \<Rightarrow> (py_exception + op_menu_data) \<times> world" where
  "get_op_menu_data e w =
     (let w1 = log_call Get_all_channels w
      in if fails e Get_all_channels then (Inl PostgresError, w1)
         else let channels = get_all_channels (db w1);
                  w2 = log_call Get_all_bots w1
              in if fails e Get_all_bots then (Inl PostgresError, w2)
                 else let bots = get_all_bots (db w2);
                          msg_type = (if channels = [] \<and> bots = [] then str_lit ''not_found''
                                      else str_lit ''start_msg'')
                      in (Inr \<lparr>od_channel_data = channels, od_bot_data = bots,
                                od_msg_type = msg_type, od_has_channels = (channels \<noteq> []),
                                od_has_bots = (bots \<noteq> [])\<rparr>, w2))"

section \<open>Windows (dialogs.py)\<close>

text \<open>
  The texts of the windows, as code points.
\<close>

text \<open>OP menu, variant start_msg.\<close>

definition lit_choose_action :: pystr where
  "lit_choose_action =
    [1042, 1099, 1073, 1077, 1088, 1080, 1090, 1077, 32, 1076, 1077, 1081, 1089, 1090,
     1074, 1080, 1077]"

text \<open>OP menu, variant not_found.\<close>

definition lit_nothing_added :: pystr where
  "lit_nothing_added =
    [1042, 1099, 32, 1077, 1097, 1077, 32, 1085, 1080, 1095, 1077, 1075, 1086, 32, 1085,
     1077, 32, 1076, 1086, 1073, 1072, 1074, 1080, 1083, 1080]"

text \<open>Forward window, variant start_msg.\<close>

definition lit_forward_prompt :: pystr where
  "lit_forward_prompt =
    [128279, 32, 1063, 1090, 1086, 1073, 1099, 32, 1076, 1086, 1073, 1072, 1074, 1080,
     1090, 1100, 32, 1082, 1072, 1085, 1072, 1083, 32, 1080, 1083, 1080, 32, 1075, 1088,
     1091, 1087, 1087, 1091, 44, 32, 1087, 1077, 1088, 1077, 1096, 1083, 1080, 1090, 1077,
     32, 1083, 1102, 1073, 1086, 1081, 32, 1087, 1086, 1089, 1090, 32, 1089, 32, 1082,
     1072, 1085, 1072, 1083, 1072, 32, 1080, 32, 1076, 1086, 1073, 1072, 1074, 1100, 1090,
     1077, 32, 1073, 1086, 1090, 1072, 32, 1074, 32, 1082, 1072, 1085, 1072, 1083, 46]"

text \<open>Forward window, variant not_forwarded.\<close>

definition lit_not_forwarded :: pystr where
  "lit_not_forwarded =
    [10060, 32, 1054, 1090, 1087, 1088, 1072, 1074, 1100, 1090, 1077, 32, 1087, 1086, 1089,
     1090, 32, 1089, 32, 1082, 1072, 1085, 1072, 1083, 1072, 33]"

text \<open>Channel URL window, variant start_msg.\<close>

definition lit_channel_link_prompt :: pystr where
  "lit_channel_link_prompt =
    [128279, 32, 1054, 1090, 1087, 1088, 1072, 1074, 1100, 1090, 1077, 32, 1089, 1089,
     1099, 1083, 1082, 1091, 32, 1085, 1072, 32, 1082, 1072, 1085, 1072, 1083]"

text \<open>Channel URL window, variant error.\<close>

definition lit_channel_add_error :: pystr where
  "lit_channel_add_error =
    [10060, 32, 1055, 1088, 1086, 1080, 1079, 1086, 1096, 1083, 1072, 32, 1086, 1096, 1080,
     1073, 1082, 1072, 32, 1087, 1088, 1080, 32, 1076, 1086, 1073, 1072, 1074, 1083, 1077,
     1085, 1080, 1080, 32, 1082, 1072, 1085, 1072, 1083, 1072, 33]"

text \<open>Channel URL window, variant already_exists.\<close>

definition lit_channel_exists :: pystr where
  "lit_channel_exists =
    [9888, 65039, 32, 1050, 1072, 1085, 1072, 1083, 32, 1091, 1078, 1077, 32, 1089, 1091,
     1097, 1077, 1089, 1090, 1074, 1091, 1077, 1090, 33]"

text \<open>Channel delete confirmation.\<close>

definition lit_confirm_delete_channel :: pystr where
  "lit_confirm_delete_channel =
    [9888, 65039, 32, 1042, 1099, 32, 1091, 1074, 1077, 1088, 1077, 1085, 1099, 44, 32,
     1095, 1090, 1086, 32, 1093, 1086, 1090, 1080, 1090, 1077, 32, 1091, 1076, 1072, 1083,
     1080, 1090, 1100, 32, 1082, 1072, 1085, 1072, 1083, 63]"

text \<open>Bot username window, variant start_msg.\<close>

definition lit_bot_username_prompt :: pystr where
  "lit_bot_username_prompt =
    [128100, 32, 1054, 1090, 1087, 1088, 1072, 1074, 1100, 1090, 1077, 32, 117, 115, 101,
     114, 110, 97, 109, 101, 32, 1073, 1086, 1090, 1072, 32, 40, 1073, 1077, 1079, 32, 64,
     41]"

text \<open>Bot username window, variant error_format.\<close>

definition lit_bot_username_format :: pystr where
  "lit_bot_username_format =
    [10060, 32, 1054, 1090, 1087, 1088, 1072, 1074, 1100, 1090, 1077, 32, 1090, 1077, 1082,
     1089, 1090, 1086, 1074, 1086, 1077, 32, 1089, 1086, 1086, 1073, 1097, 1077, 1085,
     1080, 1077, 32, 1089, 32, 117, 115, 101, 114, 110, 97, 109, 101, 32, 1073, 1086, 1090,
     1072, 33]"

text \<open>Bot username window, variant already_exists.\<close>

definition lit_bot_exists :: pystr where
  "lit_bot_exists =
    [9888, 65039, 32, 1041, 1086, 1090, 32, 1089, 32, 1090, 1072, 1082, 1080, 1084, 32,
     117, 115, 101, 114, 110, 97, 109, 101, 32, 1091, 1078, 1077, 32, 1089, 1091, 1097,
     1077, 1089, 1090, 1074, 1091, 1077, 1090, 33]"

text \<open>Bot URL window, variant start_msg.\<close>

definition lit_bot_link_prompt :: pystr where
  "lit_bot_link_prompt =
    [128279, 32, 1054, 1090, 1087, 1088, 1072, 1074, 1100, 1090, 1077, 32, 1089, 1089,
     1099, 1083, 1082, 1091, 32, 1085, 1072, 32, 1073, 1086, 1090, 1072]"

text \<open>Bot URL window, variant error_format.\<close>

definition lit_bot_link_format :: pystr where
  "lit_bot_link_format =
    [10060, 32, 1053, 1077, 1087, 1088, 1072, 1074, 1080, 1083, 1100, 1085, 1099, 1081, 32,
     1092, 1086, 1088, 1084, 1072, 1090, 32, 1089, 1089, 1099, 1083, 1082, 1080, 33]"

text \<open>Bot name window, variant start_msg.\<close>

definition lit_bot_name_prompt :: pystr where
  "lit_bot_name_prompt =
    [128221, 32, 1054, 1090, 1087, 1088, 1072, 1074, 1100, 1090, 1077, 32, 1086, 1090,
     1086, 1073, 1088, 1072, 1078, 1072, 1077, 1084, 1086, 1077, 32, 1080, 1084, 1103, 32,
     1073, 1086, 1090, 1072]"

text \<open>Bot name window, variant error_format.\<close>

definition lit_bot_name_format :: pystr where
  "lit_bot_name_format =
    [10060, 32, 1054, 1090, 1087, 1088, 1072, 1074, 1100, 1090, 1077, 32, 1090, 1077, 1082,
     1089, 1090, 1086, 1074, 1086, 1077, 32, 1089, 1086, 1086, 1073, 1097, 1077, 1085,
     1080, 1077, 33]"

text \<open>Bot delete confirmation.\<close>

definition lit_confirm_delete_bot :: pystr where
  "lit_confirm_delete_bot =
    [9888, 65039, 32, 1042, 1099, 32, 1091, 1074, 1077, 1088, 1077, 1085, 1099, 44, 32,
     1095, 1090, 1086, 32, 1093, 1086, 1090, 1080, 1090, 1077, 32, 1091, 1076, 1072, 1083,
     1080, 1090, 1100, 32, 1073, 1086, 1090, 1072, 63]"

text \<open>
  Of a drawn window the model keeps the text and, where the window has one, the label of
  the toggle button (the \<open>Button\<close> with \<open>on_click\<close> the toggle handler; it has no
  \<open>when\<close> condition, so it is part of every drawing of its window). A \<open>Case\<close> text picks
  the entry of its table under the getter's \<open>msg_type\<close>; the tables have no default
  entry, so a selection that is no key of the table raises \<open>KeyError\<close>.
\<close>

record window =
  win_text :: pystr
  win_toggle :: "pystr option"

definition render_case :: "(pystr \<times> pystr) list \<Rightarrow> pystr \<Rightarrow> py_exception + window" where
  "render_case texts selection =
     (case map_of texts selection of
        None \<Rightarrow> Inl KeyError
      | Some t \<Rightarrow> Inr \<lparr>win_text = t, win_toggle = None\<rparr>)"

definition op_menu_texts :: "(pystr \<times> pystr) list" where
  "op_menu_texts =
     [(str_lit ''start_msg'', lit_choose_action), (str_lit ''not_found'', lit_nothing_added)]"

definition get_channel_data_texts :: "(pystr \<times> pystr) list" where
  "get_channel_data_texts =
     [(str_lit ''start_msg'', lit_forward_prompt), (str_lit ''not_forwarded'', lit_not_forwarded)]"

definition get_channel_link_texts :: "(pystr \<times> pystr) list" where
  "get_channel_link_texts =
     [(str_lit ''start_msg'', lit_channel_link_prompt), (str_lit ''error'', lit_channel_add_error),
      (str_lit ''already_exists'', lit_channel_exists)]"

definition get_bot_username_texts :: "(pystr \<times> pystr) list" where
  "get_bot_username_texts =
     [(str_lit ''start_msg'', lit_bot_username_prompt),
      (str_lit ''error_format'', lit_bot_username_format),
      (str_lit ''already_exists'', lit_bot_exists)]"

definition get_bot_link_texts :: "(pystr \<times> pystr) list" where
  "get_bot_link_texts =
     [(str_lit ''start_msg'', lit_bot_link_prompt), (str_lit ''error_format'', lit_bot_link_format)]"

definition get_bot_name_texts :: "(pystr \<times> pystr) list" where
  "get_bot_name_texts =
     [(str_lit ''start_msg'', lit_bot_name_prompt), (str_lit ''error_format'', lit_bot_name_format)]"

text \<open>
  Drawing the window of the current state: its getter runs, then its text is rendered.
  The dialog framework draws the current window after a message handler that leaves the
  context in place, and inside \<open>done()\<close> and \<open>start()\<close>.
\<close>

definition show_window :: "env \<Rightarrow> world \<Rightarrow> (py_exception + window) \<times> world" where
  "show_window e w =
     (case ctx_state (current (mgr w)) of
        OPMenu_menu \<Rightarrow>
          (case get_op_menu_data e w of
             (Inl ex, w') \<Rightarrow> (Inl ex, w')
           | (Inr data, w') \<Rightarrow> (render_case op_menu_texts (od_msg_type data), w'))
      | AddChannelState_get_channel_data \<Rightarrow>
          (render_case get_channel_data_texts (get_add_channel_data w), w)
      | AddChannelState_get_channel_link \<Rightarrow>
          (render_case get_channel_link_texts (get_add_channel_data w), w)
      | AddBotState_get_bot_username \<Rightarrow>
          (render_case get_bot_username_texts (get_add_bot_data w), w)
      | AddBotState_get_bot_link \<Rightarrow>
          (render_case get_bot_link_texts (get_add_bot_data w), w)
      | AddBotState_get_bot_name \<Rightarrow>
          (render_case get_bot_name_texts (get_add_bot_data w), w)
      | ChannelMenu_menu \<Rightarrow>
          (case get_channel_info_data e w of
             (Inl ex, w') \<Rightarrow> (Inl ex, w')
           | (Inr v, w') \<Rightarrow>
               (Inr \<lparr>win_text = cv_channel_data v, win_toggle = Some (cv_op_button v)\<rparr>, w'))
      | ChannelMenu_delete_channel \<Rightarrow>
          (Inr \<lparr>win_text = lit_confirm_delete_channel, win_toggle = None\<rparr>, w)
      | BotMenu_menu \<Rightarrow>
          (case get_bot_info_data e w of
             (Inl ex, w') \<Rightarrow> (Inl ex, w')
           | (Inr v, w') \<Rightarrow>
               (Inr \<lparr>win_text = bv_bot_data v, win_toggle = Some (bv_op_button v)\<rparr>, w'))
      | BotMenu_delete_bot \<Rightarrow>
          (Inr \<lparr>win_text = lit_confirm_delete_bot, win_toggle = None\<rparr>, w))"

text \<open>The OP menu as it is drawn over a store: both of its variants are in its table.\<close>

definition op_menu_window :: "database \<Rightarrow> window" where
  "op_menu_window d =
     \<lparr>win_text = (if channels d = [] \<and> bots d = [] then lit_nothing_added else lit_choose_action),
      win_toggle = None\<rparr>"

section \<open>Closing and starting dialogs\<close>

text \<open>
  \<open>done()\<close> closes the current context. If a context lies below, that one becomes current
  and its window is drawn, which runs its getter: the result is that drawing and the
  world it leaves (\<open>Some\<close>). If none lies below, nothing is drawn (\<open>None\<close>).
  \<open>start(state)\<close> pushes a fresh context with empty \<open>dialog_data\<close> on the contexts
  \<open>below\<close> and draws its window. A getter that raises makes \<open>done()\<close> or \<open>start()\<close>
  raise, with the stack as it is at that moment.
\<close>

definition dialog_done :: "env \<Rightarrow> world \<Rightarrow> ((py_exception + window) \<times> world) option" where
  "dialog_done e w =
     (case stack (mgr w) of
        [] \<Rightarrow> None
      | parent # rest \<Rightarrow> Some (show_window e (w\<lparr>mgr := \<lparr>current = parent, stack = rest\<rparr>\<rparr>)))"

definition dialog_start ::
  "env \<Rightarrow> dstate \<Rightarrow> start_data option \<Rightarrow> dialog_context list \<Rightarrow> world
     \<Rightarrow> (py_exception + window) \<times> world" where
  "dialog_start e st data below w =
     show_window e
       (w\<lparr>mgr := \<lparr>current = \<lparr>ctx_state = st, ctx_start_data = data,
                                ctx_dialog_data = empty_dialog_data\<rparr>,
                    stack = below\<rparr>\<rparr>)"

text \<open>
  What a handler that may raise leaves behind: the exception that left it, if any; the
  world at that moment; the contexts it closed, as they were when closed; the windows
  drawn while it ran.
\<close>

record outcome =
  out_raised :: "py_exception option"
  out_world :: world
  out_closed :: "dialog_context list"
  out_shown :: "window list"

definition returns :: "world \<Rightarrow> outcome" where
  "returns w = \<lparr>out_raised = None, out_world = w, out_closed = [], out_shown = []\<rparr>"

text \<open>
  \<open>await dialog_manager.done()\<close> followed by \<open>await dialog_manager.start(OPMenu.menu)\<close>:
  if \<open>done()\<close> raises, \<open>start()\<close> does not run.
\<close>

definition to_op_menu :: "env \<Rightarrow> world \<Rightarrow> outcome" where
  "to_op_menu e w =
     (case dialog_done e w of
        None \<Rightarrow>
          (case dialog_start e OPMenu_menu None [] w of
             (Inl ex, w') \<Rightarrow>
               \<lparr>out_raised = Some ex, out_world = w', out_closed = [current (mgr w)],
                out_shown = []\<rparr>
           | (Inr win, w') \<Rightarrow>
               \<lparr>out_raised = None, out_world = w', out_closed = [current (mgr w)],
                out_shown = [win]\<rparr>)
      | Some (Inl ex, w1) \<Rightarrow>
          \<lparr>out_raised = Some ex, out_world = w1, out_closed = [current (mgr w)],
           out_shown = []\<rparr>
      | Some (Inr win1, w1) \<Rightarrow>
          (case dialog_start e OPMenu_menu None (current (mgr w1) # stack (mgr w1)) w1 of
             (Inl ex, w') \<Rightarrow>
               \<lparr>out_raised = Some ex, out_world = w', out_closed = [current (mgr w)],
                out_shown = [win1]\<rparr>
           | (Inr win2, w') \<Rightarrow>
               \<lparr>out_raised = None, out_world = w', out_closed = [current (mgr w)],
                out_shown = [win1, win2]\<rparr>))"

text \<open>The add calls among the store calls.\<close>

definition is_add :: "db_call \<Rightarrow> bool" where
  "is_add c = (case c of Add_channel _ _ _ _ \<Rightarrow> True | Add_bot _ _ _ \<Rightarrow> True | _ \<Rightarrow> False)"

section \<open>Channel handlers (handlers.py)\<close>

definition handle_channel_forward :: "env \<Rightarrow> message \<Rightarrow> world \<Rightarrow> world" where
  "handle_channel_forward e message w =
     (case forward_from_chat message of
        None \<Rightarrow> set_msg_type (str_lit ''not_forwarded'') w
      | Some chat \<Rightarrow>
          let channel_id = chat_id chat;
              w1 = log_call (Get_channel (Some channel_id)) w
          in if fails e (Get_channel (Some channel_id))
             then set_msg_type (str_lit ''error'') w1
             else (case get_channel (db w1) channel_id of
                     Some existing_channel \<Rightarrow>
                       switch_to AddChannelState_get_channel_link
                         (set_msg_type (str_lit ''already_exists'') w1)
                   | None \<Rightarrow>
                       switch_to AddChannelState_get_channel_link
                         (set_dialog_data (\<lambda>dd. dd\<lparr>dd_channel_data := Some
                            \<lparr>cd_channel_name = or_else (full_name chat) (str_lit ''Unnamed Channel''),
                             cd_channel_id = channel_id,
                             cd_channel_username = or_else (username chat) []\<rparr>\<rparr>) w1)))"

text \<open>
  The \<open>finally\<close> clause of the source runs after the \<open>try\<close> body and after either
  \<open>except\<close> clause, so each of the three outcomes of the add call ends in \<open>to_op_menu\<close>;
  an exception raised there leaves the handler.
\<close>

definition handle_channel_url_input :: "env \<Rightarrow> message \<Rightarrow> world \<Rightarrow> outcome" where
  "handle_channel_url_input e message w =
     (case msg_text message of
        None \<Rightarrow> returns (set_msg_type (str_lit ''error_format'') w)
      | Some t \<Rightarrow>
          if t = [] then returns (set_msg_type (str_lit ''error_format'') w)
          else (case dd_channel_data (dialog_data w) of
                  None \<Rightarrow> to_op_menu e (set_msg_type (str_lit ''error'') w)
                | Some cd \<Rightarrow>
                    let channel_url = strip t;
                        w1 = log_call (Add_channel (cd_channel_id cd) (cd_channel_name cd)
                               (cd_channel_username cd) channel_url) w
                    in (case run_add_channel e (db w1) (cd_channel_id cd) (cd_channel_name cd)
                               (cd_channel_username cd) channel_url of
                          Inr d' \<Rightarrow> to_op_menu e (w1\<lparr>db := d'\<rparr>)
                        | Inl UniqueViolationError \<Rightarrow>
                            to_op_menu e (set_msg_type (str_lit ''already_exists'') w1)
                        | Inl _ \<Rightarrow> to_op_menu e (set_msg_type (str_lit ''error'') w1))))"

definition handle_toggle_channel_op_status :: "env \<Rightarrow> world \<Rightarrow> world" where
  "handle_toggle_channel_op_status e w =
     (case dd_channel_id (dialog_data w) of
        None \<Rightarrow> w
      | Some channel_id \<Rightarrow>
          if channel_id = 0 then w
          else let w1 = log_call (Get_channel (Some channel_id)) w
               in if fails e (Get_channel (Some channel_id)) then switch_to ChannelMenu_menu w1
                  else (case get_channel (db w1) channel_id of
                          None \<Rightarrow> w1
                        | Some channel_data \<Rightarrow>
                            let current_status = c_status channel_data;
                                new_status = (if current_status = str_lit ''True''
                                              then str_lit ''False'' else str_lit ''True'');
                                w2 = log_call (Update_channel_status new_status channel_id) w1
                            in if fails e (Update_channel_status new_status channel_id)
                               then switch_to ChannelMenu_menu w2
                               else switch_to ChannelMenu_menu
                                      (w2\<lparr>db := update_channel_status (db w2) new_status channel_id\<rparr>)))"

section \<open>Bot handlers (handlers.py)\<close>

definition handle_bot_username_input :: "env \<Rightarrow> message \<Rightarrow> world \<Rightarrow> world" where
  "handle_bot_username_input e message w =
     (case msg_text message of
        None \<Rightarrow> set_msg_type (str_lit ''error_format'') w
      | Some t \<Rightarrow>
          if t = [] then set_msg_type (str_lit ''error_format'') w
          else let bot_username = lstrip (str_lit ''@'') (strip t);
                   w1 = log_call (Get_bot (Some bot_username)) w
               in if fails e (Get_bot (Some bot_username))
                  then set_msg_type (str_lit ''error'') w1
                  else (case get_bot (db w1) bot_username of
                          Some existing_bot \<Rightarrow> set_msg_type (str_lit ''already_exists'') w1
                        | None \<Rightarrow>
                            switch_to AddBotState_get_bot_link
                              (set_dialog_data (\<lambda>dd. dd\<lparr>dd_bot_username := Some bot_username\<rparr>) w1)))"

definition handle_bot_url_input :: "message \<Rightarrow> world \<Rightarrow> world" where
  "handle_bot_url_input message w =
     (case msg_text message of
        None \<Rightarrow> set_msg_type (str_lit ''error_format'') w
      | Some t \<Rightarrow>
          if t = [] then set_msg_type (str_lit ''error_format'') w
          else switch_to AddBotState_get_bot_name
                 (set_dialog_data (\<lambda>dd. dd\<lparr>dd_bot_url := Some (strip t)\<rparr>) w))"

definition handle_bot_name_input :: "env \<Rightarrow> message \<Rightarrow> world \<Rightarrow> outcome" where
  "handle_bot_name_input e message w =
     (case msg_text message of
        None \<Rightarrow> returns (set_msg_type (str_lit ''error_format'') w)
      | Some t \<Rightarrow>
          if t = [] then returns (set_msg_type (str_lit ''error_format'') w)
          else let bot_name = strip t;
                   missing = to_op_menu e (set_msg_type (str_lit ''error'') w)
               in (case dd_bot_username (dialog_data w) of
                     None \<Rightarrow> missing
                   | Some bot_username \<Rightarrow>
                       (case dd_bot_url (dialog_data w) of
                          None \<Rightarrow> missing
                        | Some bot_url \<Rightarrow>
                            if bot_username = [] \<or> bot_url = [] then missing
                            else let w1 = log_call (Add_bot bot_name bot_username bot_url) w
                                 in (case run_add_bot e (db w1) bot_name bot_username bot_url of
                                       Inr d' \<Rightarrow> to_op_menu e (w1\<lparr>db := d'\<rparr>)
                                     | Inl UniqueViolationError \<Rightarrow>
                                         to_op_menu e (set_msg_type (str_lit ''already_exists'') w1)
                                     | Inl _ \<Rightarrow>
                                         to_op_menu e (set_msg_type (str_lit ''error'') w1)))))"

definition handle_toggle_bot_op_status :: "env \<Rightarrow> world \<Rightarrow> world" where
  "handle_toggle_bot_op_status e w =
     (case dd_bot_username (dialog_data w) of
        None \<Rightarrow> w
      | Some bot_username \<Rightarrow>
          if bot_username = [] then w
          else let w1 = log_call (Get_bot (Some bot_username)) w
               in if fails e (Get_bot (Some bot_username)) then switch_to BotMenu_menu w1
                  else (case get_bot (db w1) bot_username of
                          None \<Rightarrow> w1
                        | Some bot_data \<Rightarrow>
                            let current_status = b_status bot_data;
                                new_status = (if current_status = str_lit ''True''
                                              then str_lit ''False'' else str_lit ''True'');
                                w2 = log_call (Update_bot_status new_status bot_username) w1
                            in if fails e (Update_bot_status new_status bot_username)
                               then switch_to BotMenu_menu w2
                               else switch_to BotMenu_menu
                                      (w2\<lparr>db := update_bot_status (db w2) new_status bot_username\<rparr>)))"

section \<open>The handle as the specification words it\<close>

text \<open>
  This definition follows the words of the specification, not the source: the input
  stripped of surrounding whitespace, minus one leading "@", the rest kept as given. It
  is compared with what \<open>handle_bot_username_input\<close> stashes.
\<close>

definition handle_minus_one_at :: "pystr \<Rightarrow> pystr" where
  "handle_minus_one_at t = (case strip t of [] \<Rightarrow> [] | c # r \<Rightarrow> if c = 64 then r else c # r)"

section \<open>Reading a decimal numeral\<close>

text \<open>
  The value of a decimal numeral with an optional leading minus sign. It is not part of
  the source; it states what the id rendered into a channel card denotes.
\<close>

definition read_digits :: "pystr \<Rightarrow> nat" where
  "read_digits ds = foldl (\<lambda>a d. 10 * a + (d - 48)) 0 ds"

definition read_decimal :: "pystr \<Rightarrow> int" where
  "read_decimal s = (case s of [] \<Rightarrow> 0 | c # ds \<Rightarrow> if c = 45 then - int (read_digits ds)
                                                   else int (read_digits (c # ds)))"

section \<open>Example inputs\<close>

definition no_faults :: env where
  "no_faults = \<lparr>fails = (\<lambda>_. False), initial_status = str_lit ''True''\<rparr>"

definition mk_channel :: "int \<Rightarrow> string \<Rightarrow> string \<Rightarrow> channel" where
  "mk_channel k name status =
     \<lparr>c_id = k, c_name = str_lit name, c_username = Some (str_lit name),
      c_status = str_lit status, c_url = str_lit ''https://t.me/'' @ str_lit name\<rparr>"

definition three_channels :: database where
  "three_channels =
     \<lparr>channels = [mk_channel 1 ''one'' ''True'', mk_channel 2 ''two'' ''False'',
                  mk_channel 3 ''three'' ''True''],
      bots = []\<rparr>"

text \<open>A user who is a member of chat 1 and has left chat 3; any other query raises.\<close>

definition member_of_one :: chat_member_api where
  "member_of_one c u =
     (if c = 1 then Some (str_lit ''member'')
      else if c = 3 then Some (str_lit ''left'') else None)"

definition storage_down :: env where
  "storage_down = \<lparr>fails = (\<lambda>_. True), initial_status = str_lit ''True''\<rparr>"

definition mk_bot :: "string \<Rightarrow> string \<Rightarrow> string \<Rightarrow> bot" where
  "mk_bot name uname status =
     \<lparr>b_name = str_lit name, b_username = str_lit uname, b_status = str_lit status,
      b_url = str_lit ''https://t.me/'' @ str_lit uname\<rparr>"

definition one_each :: database where
  "one_each =
     \<lparr>channels = [mk_channel 555 ''examplechan'' ''True''],
      bots = [mk_bot ''Helper'' ''helper_bot'' ''False'']\<rparr>"

definition text_message :: "string \<Rightarrow> message" where
  "text_message t = \<lparr>forward_from_chat = None, msg_text = Some (str_lit t), from_user = Some 42\<rparr>"

definition photo_message :: message where
  "photo_message = \<lparr>forward_from_chat = None, msg_text = None, from_user = Some 42\<rparr>"

definition forwarded_from :: "int \<Rightarrow> string \<Rightarrow> message" where
  "forwarded_from k name =
     \<lparr>forward_from_chat = Some \<lparr>chat_id = k, full_name = Some (str_lit name),
                                username = Some (str_lit name)\<rparr>,
      msg_text = None, from_user = Some 42\<rparr>"

definition stash_555 :: channel_data where
  "stash_555 =
     \<lparr>cd_channel_name = str_lit ''examplechan'', cd_channel_id = 555,
      cd_channel_username = str_lit ''examplechan''\<rparr>"

text \<open>A dialog in state \<open>st\<close> with scratch \<open>dd\<close>, opened from the OP menu.\<close>

definition in_dialog :: "database \<Rightarrow> dstate \<Rightarrow> start_data option \<Rightarrow> dialog_data \<Rightarrow> world" where
  "in_dialog d st sd dd =
     \<lparr>db = d,
      mgr = \<lparr>current = \<lparr>ctx_state = st, ctx_start_data = sd, ctx_dialog_data = dd\<rparr>,
             stack = [\<lparr>ctx_state = OPMenu_menu, ctx_start_data = None,
                       ctx_dialog_data = empty_dialog_data\<rparr>]\<rparr>,
      calls = []\<rparr>"

text \<open>A store whose status texts are neither "True" nor "False".\<close>

definition odd_status :: database where
  "odd_status =
     \<lparr>channels = [mk_channel 7 ''seven'' ''yes''],
      bots = [mk_bot ''Eight'' ''eight_bot'' ''no'']\<rparr>"

text \<open>The add-channel flow at its forward step and at its URL step with channel 555 stashed.\<close>

definition forward_step :: world where
  "forward_step = in_dialog one_each AddChannelState_get_channel_data None empty_dialog_data"

definition url_step_555 :: world where
  "url_step_555 =
     in_dialog one_each AddChannelState_get_channel_link None
       (empty_dialog_data\<lparr>dd_channel_data := Some stash_555\<rparr>)"

definition url_message :: message where
  "url_message = text_message ''https://t.me/examplechan''"

text \<open>The detail view of a channel id that is not stored.\<close>

definition detail_999 :: world where
  "detail_999 =
     in_dialog one_each ChannelMenu_menu
       (Some \<lparr>sd_channel_id = Some 999, sd_bot_username = None\<rparr>) empty_dialog_data"

text \<open>An environment in which exactly the add calls fail, and the bot flow at its name step.\<close>

definition add_fails :: env where
  "add_fails = \<lparr>fails = is_add, initial_status = str_lit ''True''\<rparr>"

definition name_step_new_bot :: world where
  "name_step_new_bot =
     in_dialog one_each AddBotState_get_bot_name None
       (empty_dialog_data\<lparr>dd_bot_username := Some (str_lit ''new_bot''),
                          dd_bot_url := Some (str_lit ''https://t.me/new_bot'')\<rparr>)"

text \<open>The bot flow at its name step with the stored handle stashed.\<close>

definition name_step_helper_bot :: world where
  "name_step_helper_bot =
     in_dialog one_each AddBotState_get_bot_name None
       (empty_dialog_data\<lparr>dd_bot_username := Some (str_lit ''helper_bot''),
                          dd_bot_url := Some (str_lit ''https://t.me/helper_bot'')\<rparr>)"

text \<open>A store in which channel 999 has appeared.\<close>

definition late_999 :: database where
  "late_999 = \<lparr>channels = [mk_channel 999 ''late'' ''True''], bots = []\<rparr>"

section \<open>Facts about text\<close>

lemma str_lit_eq_iff [simp]: "str_lit s = str_lit t \<longleftrightarrow> s = t"
  by (simp add: str_lit_def inj_map_eq_map [OF inj_of_char])

lemma str_lit_Nil_iff [simp]: "str_lit s = [] \<longleftrightarrow> s = []"
  by (simp add: str_lit_def)

lemma str_lit_append: "str_lit a @ str_lit b = str_lit (a @ b)"
  by (simp add: str_lit_def)

section \<open>The membership gate: proofs\<close>

lemma not_sub_loop_queried:
  "not_sub_loop api user cs q ns = (q', r) \<Longrightarrow> p \<in> set q' \<Longrightarrow>
   p \<in> set q \<or> (\<exists>c \<in> set cs. \<exists>u. active c \<and> user = Some u \<and> p = (c_id c, u))"
proof (induction cs arbitrary: q ns)
  case Nil
  then show ?case by auto
next
  case (Cons c cs)
  show ?case
  proof (cases "c_status c = str_lit ''True''")
    case False
    with Cons.prems have "not_sub_loop api user cs q ns = (q', r)" by simp
    from Cons.IH [OF this Cons.prems(2)] show ?thesis by auto
  next
    case True
    then have act: "active c" by (simp add: active_def)
    show ?thesis
    proof (cases user)
      case None
      with True Cons.prems show ?thesis by auto
    next
      case (Some uid)
      note user = this
      show ?thesis
      proof (cases "api (c_id c) uid")
        case None
        with True user Cons.prems have "q' = q @ [(c_id c, uid)]" by simp
        with Cons.prems(2) act user show ?thesis by auto
      next
        case (Some st)
        with True user Cons.prems(1)
        obtain ns' where "not_sub_loop api user cs (q @ [(c_id c, uid)]) ns' = (q', r)"
          by (auto split: if_splits)
        from Cons.IH [OF this Cons.prems(2)] act user show ?thesis by auto
      qed
    qed
  qed
qed

lemma not_sub_loop_answers:
  "\<forall>c \<in> set cs. active c \<longrightarrow> api (c_id c) uid \<noteq> None \<Longrightarrow>
   not_sub_loop api (Some uid) cs q ns =
     (q @ map (\<lambda>c. (c_id c, uid)) (filter active cs), Inr (ns @ filter (unsatisfied api uid) cs))"
proof (induction cs arbitrary: q ns)
  case Nil
  then show ?case by simp
next
  case (Cons c cs)
  then have IH: "\<And>q ns. not_sub_loop api (Some uid) cs q ns =
     (q @ map (\<lambda>c. (c_id c, uid)) (filter active cs), Inr (ns @ filter (unsatisfied api uid) cs))"
    by simp
  show ?case
  proof (cases "active c")
    case False
    then have "c_status c \<noteq> str_lit ''True''" and "\<not> unsatisfied api uid c"
      by (simp_all add: active_def unsatisfied_def)
    with False show ?thesis by (simp add: IH)
  next
    case True
    with Cons.prems obtain st where st: "api (c_id c) uid = Some st" by auto
    from True have status: "c_status c = str_lit ''True''" by (simp add: active_def)
    from st status have "unsatisfied api uid c \<longleftrightarrow> st \<notin> set subscribed_roles"
      by (simp add: unsatisfied_def)
    with True st status show ?thesis by (simp add: IH)
  qed
qed

text \<open>
  C1. In both gate handlers the membership endpoint is only ever called for channels whose
  status text is "True", whatever happens during the run. When the store and every
  query on an active channel answer, the endpoint is called exactly once for each active
  channel, in list order, and the reported list is the channel list filtered to the
  active channels whose returned role is none of member, administrator, creator; being
  a filter of the channel list, it keeps the iteration order.
\<close>

theorem check_channel_sub_gate:
  "(\<forall>p \<in> set (queried (check_channel_sub_message e api msg d)).
       \<exists>c \<in> set (channels d). c_status c = str_lit ''True'' \<and> fst p = c_id c) \<and>
   (\<forall>p \<in> set (queried (check_channel_sub_call e api call d)).
       \<exists>c \<in> set (channels d). c_status c = str_lit ''True'' \<and> fst p = c_id c) \<and>
   (\<not> fails e Get_all_channels \<and> \<not> fails e Get_all_bots \<and>
    (\<forall>c \<in> set (channels d). c_status c = str_lit ''True'' \<longrightarrow> api (c_id c) uid \<noteq> None) \<longrightarrow>
      (from_user msg = Some uid \<longrightarrow>
         check_channel_sub_message e api msg d =
           \<lparr>queried = map (\<lambda>c. (c_id c, uid)) (filter active (channels d)),
            reply = Inr (filter (unsatisfied api uid) (channels d), bots d)\<rparr>) \<and>
      (cq_from_user call = uid \<longrightarrow>
         check_channel_sub_call e api call d =
           \<lparr>queried = map (\<lambda>c. (c_id c, uid)) (filter active (channels d)),
            reply = Inr (filter (unsatisfied api uid) (channels d), bots d)\<rparr>))"
proof -
  have only_active: "\<exists>c \<in> set (channels d). c_status c = str_lit ''True'' \<and> fst p = c_id c"
    if "p \<in> set (queried (check_sub e api user d))" for p user
  proof (cases "fails e Get_all_channels \<or> fails e Get_all_bots")
    case True
    with that show ?thesis by (auto simp: check_sub_def get_all_channels_def get_all_bots_def split: if_splits)
  next
    case False
    obtain q r where loop: "not_sub_loop api user (channels d) [] [] = (q, r)"
      by (cases "not_sub_loop api user (channels d) [] []")
    with False that have "p \<in> set q"
      by (cases r) (auto simp: check_sub_def get_all_channels_def get_all_bots_def)
    from not_sub_loop_queried [OF loop this] show ?thesis
      by (auto simp: active_def)
  qed
  have answers: "check_sub e api (Some uid) d =
      \<lparr>queried = map (\<lambda>c. (c_id c, uid)) (filter active (channels d)),
       reply = Inr (filter (unsatisfied api uid) (channels d), bots d)\<rparr>"
    if "\<not> fails e Get_all_channels" "\<not> fails e Get_all_bots"
       "\<forall>c \<in> set (channels d). c_status c = str_lit ''True'' \<longrightarrow> api (c_id c) uid \<noteq> None"
  proof -
    from that(3) have "\<forall>c \<in> set (channels d). active c \<longrightarrow> api (c_id c) uid \<noteq> None"
      by (simp add: active_def)
    then have "not_sub_loop api (Some uid) (channels d) [] [] =
        ([] @ map (\<lambda>c. (c_id c, uid)) (filter active (channels d)),
         Inr ([] @ filter (unsatisfied api uid) (channels d)))"
      by (rule not_sub_loop_answers)
    with that(1,2) show ?thesis
      by (simp add: check_sub_def get_all_channels_def get_all_bots_def)
  qed
  show ?thesis
    using only_active answers
    by (simp add: check_channel_sub_message_def check_channel_sub_call_def)
qed

theorem check_channel_sub_gate_witness:
  "check_channel_sub_message no_faults member_of_one
       \<lparr>forward_from_chat = None, msg_text = Some (str_lit ''/start''), from_user = Some 42\<rparr>
       three_channels =
     \<lparr>queried = [(1, 42), (3, 42)],
      reply = Inr ([mk_channel 3 ''three'' ''True''], [])\<rparr> \<and>
   check_channel_sub_call no_faults member_of_one \<lparr>cq_from_user = 42\<rparr> three_channels =
     \<lparr>queried = [(1, 42), (3, 42)],
      reply = Inr ([mk_channel 3 ''three'' ''True''], [])\<rparr>"
  using check_channel_sub_gate [of no_faults member_of_one
      "\<lparr>forward_from_chat = None, msg_text = Some (str_lit ''/start''), from_user = Some 42\<rparr>"
      three_channels "\<lparr>cq_from_user = 42\<rparr>" 42]
  by (simp add: no_faults_def three_channels_def mk_channel_def member_of_one_def
      active_def unsatisfied_def subscribed_roles_def)

section \<open>Unfolding the manager primitives and the examples\<close>

lemmas world_defs = set_msg_type_def set_dialog_data_def switch_to_def
  log_call_def dialog_data_def calls_made_def

lemmas example_defs = no_faults_def storage_down_def mk_channel_def mk_bot_def one_each_def
  three_channels_def text_message_def photo_message_def forwarded_from_def stash_555_def
  in_dialog_def empty_dialog_data_def

lemmas flow_defs = handle_channel_url_input_def handle_bot_name_input_def
  handle_channel_forward_def to_op_menu_def dialog_done_def dialog_start_def show_window_def
  get_op_menu_data_def render_case_def op_menu_texts_def op_menu_window_def returns_def
  get_all_channels_def get_all_bots_def run_add_channel_def run_add_bot_def add_channel_def
  add_bot_def get_channel_def get_bot_def is_add_def

lemmas flow_examples = add_fails_def name_step_new_bot_def name_step_helper_bot_def
  url_step_555_def forward_step_def url_message_def detail_999_def

section \<open>Drawing windows, closing and starting dialogs: proofs\<close>

lemma show_window_db: "db (snd (show_window e w)) = db w"
  by (simp add: show_window_def get_op_menu_data_def get_channel_info_data_def
      get_bot_info_data_def world_defs Let_def
      split: dstate.splits option.splits)

lemma show_window_calls:
  "\<exists>cs. calls (snd (show_window e w)) = calls w @ cs \<and> (\<forall>c \<in> set cs. \<not> is_add c)"
  by (simp add: show_window_def get_op_menu_data_def get_channel_info_data_def
      get_bot_info_data_def world_defs Let_def is_add_def
      split: dstate.splits option.splits)

lemma show_op_menu:
  assumes "ctx_state (current (mgr w)) = OPMenu_menu"
  shows "show_window e w =
     (if fails e Get_all_channels then (Inl PostgresError, log_call Get_all_channels w)
      else if fails e Get_all_bots
           then (Inl PostgresError, log_call Get_all_bots (log_call Get_all_channels w))
           else (Inr (op_menu_window (db w)),
                 log_call Get_all_bots (log_call Get_all_channels w)))"
  using assms
  by (simp add: show_window_def get_op_menu_data_def render_case_def op_menu_texts_def
      op_menu_window_def get_all_channels_def get_all_bots_def log_call_def Let_def)

lemma to_op_menu_closed: "out_closed (to_op_menu e w) = [current (mgr w)]"
  by (simp add: to_op_menu_def split: option.splits prod.splits sum.splits)

lemma dialog_start_db: "db (snd (dialog_start e st data below w)) = db w"
  by (simp add: dialog_start_def show_window_db)

lemma dialog_start_calls:
  "\<exists>cs. calls (snd (dialog_start e st data below w)) = calls w @ cs \<and> (\<forall>c \<in> set cs. \<not> is_add c)"
  using show_window_calls [of e "w\<lparr>mgr := \<lparr>current = \<lparr>ctx_state = st, ctx_start_data = data,
      ctx_dialog_data = empty_dialog_data\<rparr>, stack = below\<rparr>\<rparr>"]
  by (simp add: dialog_start_def)

lemma to_op_menu_db: "db (out_world (to_op_menu e w)) = db w"
proof (cases "stack (mgr w)")
  case Nil
  then show ?thesis
    using dialog_start_db [of e OPMenu_menu None "[]" w]
    by (auto simp add: to_op_menu_def dialog_done_def split: prod.splits sum.splits)
next
  case (Cons parent rest)
  let ?w0 = "w\<lparr>mgr := \<lparr>current = parent, stack = rest\<rparr>\<rparr>"
  obtain r w1 where d: "show_window e ?w0 = (r, w1)" by (cases "show_window e ?w0")
  then have w1: "db w1 = db w" using show_window_db [of e ?w0] by simp
  show ?thesis
  proof (cases r)
    case (Inl ex)
    with Cons d w1 show ?thesis by (simp add: to_op_menu_def dialog_done_def)
  next
    case (Inr win)
    with Cons d w1 show ?thesis
      using dialog_start_db [of e OPMenu_menu None "current (mgr w1) # stack (mgr w1)" w1]
      by (auto simp add: to_op_menu_def dialog_done_def split: prod.splits sum.splits)
  qed
qed

lemma to_op_menu_calls:
  "\<exists>cs. calls (out_world (to_op_menu e w)) = calls w @ cs \<and> (\<forall>c \<in> set cs. \<not> is_add c)"
proof (cases "stack (mgr w)")
  case Nil
  then show ?thesis
    using dialog_start_calls [of e OPMenu_menu None "[]" w]
    by (auto simp add: to_op_menu_def dialog_done_def split: prod.splits sum.splits)
next
  case (Cons parent rest)
  let ?w0 = "w\<lparr>mgr := \<lparr>current = parent, stack = rest\<rparr>\<rparr>"
  obtain r w1 where d: "show_window e ?w0 = (r, w1)" by (cases "show_window e ?w0")
  from show_window_calls [of e ?w0] d
  obtain cs1 where cs1: "calls w1 = calls w @ cs1" "\<forall>c \<in> set cs1. \<not> is_add c" by auto
  show ?thesis
  proof (cases r)
    case (Inl ex)
    with Cons d cs1 show ?thesis by (simp add: to_op_menu_def dialog_done_def)
  next
    case (Inr win)
    from dialog_start_calls [of e OPMenu_menu None "current (mgr w1) # stack (mgr w1)" w1]
    obtain cs2 where cs2:
      "calls (snd (dialog_start e OPMenu_menu None (current (mgr w1) # stack (mgr w1)) w1)) =
         calls w1 @ cs2" "\<forall>c \<in> set cs2. \<not> is_add c" by auto
    have "calls (out_world (to_op_menu e w)) = calls w @ (cs1 @ cs2)"
      using Cons d Inr cs1(1) cs2(1)
      by (auto simp add: to_op_menu_def dialog_done_def split: prod.splits sum.splits)
    moreover have "\<forall>c \<in> set (cs1 @ cs2). \<not> is_add c" using cs1(2) cs2(2) by auto
    ultimately show ?thesis by blast
  qed
qed

text \<open>The OP menu below: what \<open>done(); start(OPMenu.menu)\<close> does, case by case.\<close>

lemma to_op_menu_from_menu:
  assumes "stack (mgr w) = parent # rest" and "ctx_state parent = OPMenu_menu"
  shows "to_op_menu e w =
     (if fails e Get_all_channels then
        \<lparr>out_raised = Some PostgresError,
         out_world = w\<lparr>mgr := \<lparr>current = parent, stack = rest\<rparr>,
                       calls := calls w @ [Get_all_channels]\<rparr>,
         out_closed = [current (mgr w)], out_shown = []\<rparr>
      else if fails e Get_all_bots then
        \<lparr>out_raised = Some PostgresError,
         out_world = w\<lparr>mgr := \<lparr>current = parent, stack = rest\<rparr>,
                       calls := calls w @ [Get_all_channels, Get_all_bots]\<rparr>,
         out_closed = [current (mgr w)], out_shown = []\<rparr>
      else
        \<lparr>out_raised = None,
         out_world = w\<lparr>mgr := \<lparr>current = \<lparr>ctx_state = OPMenu_menu, ctx_start_data = None,
                                             ctx_dialog_data = empty_dialog_data\<rparr>,
                                 stack = parent # rest\<rparr>,
                       calls := calls w @ [Get_all_channels, Get_all_bots,
                                           Get_all_channels, Get_all_bots]\<rparr>,
         out_closed = [current (mgr w)],
         out_shown = [op_menu_window (db w), op_menu_window (db w)]\<rparr>)"
  using assms
  by (simp add: to_op_menu_def dialog_done_def dialog_start_def show_op_menu log_call_def)

section \<open>The registration flows: proofs\<close>

lemma no_add_after_to_op_menu:
  assumes "c \<in> set (calls_made w (out_world (to_op_menu e w')))" and "calls w' = calls w"
  shows "\<not> is_add c"
proof -
  from to_op_menu_calls [of e w'] obtain cs where
    "calls (out_world (to_op_menu e w')) = calls w' @ cs" "\<forall>c \<in> set cs. \<not> is_add c" by blast
  with assms show ?thesis by (simp add: calls_made_def)
qed

lemma url_step_without_stash:
  assumes "msg_text message = Some t" and "t \<noteq> []"
    and "dd_channel_data (dialog_data w) = None"
  shows "handle_channel_url_input e message w = to_op_menu e (set_msg_type (str_lit ''error'') w)"
  using assms by (simp add: handle_channel_url_input_def)

lemma closes_with_error:
  "out_closed (to_op_menu e (set_msg_type v w)) =
     [(current (mgr w))\<lparr>ctx_dialog_data := (dialog_data w)\<lparr>dd_msg_type := Some v\<rparr>\<rparr>]"
  by (simp add: to_op_menu_closed world_defs)









text \<open>
  C4. The handler at the failing input: channel 555 is stored and stashed, and a URL is
  sent at the URL step. The add call raises the duplicate-key error; the handler writes
  "already_exists" into the flow's scratch and its \<open>finally\<close> clause closes that flow
  and starts the OP menu. The conversation does not stay in the URL state, the fresh
  scratch carries no discriminator, and the two windows drawn are OP menus. The text the
  URL window holds for "already_exists" is therefore not shown. The store is unchanged.
  The bot name step does the same when the stashed handle "helper_bot" is stored.
\<close>

theorem add_duplicate_key_lost:
  "ctx_state (current (mgr url_step_555)) = AddChannelState_get_channel_link \<and>
   run_add_channel no_faults (db url_step_555) 555 (str_lit ''examplechan'')
     (str_lit ''examplechan'') (str_lit ''https://t.me/examplechan'') =
     Inl UniqueViolationError \<and>
   out_raised (handle_channel_url_input no_faults url_message url_step_555) = None \<and>
   out_closed (handle_channel_url_input no_faults url_message url_step_555) =
     [\<lparr>ctx_state = AddChannelState_get_channel_link, ctx_start_data = None,
       ctx_dialog_data = empty_dialog_data
         \<lparr>dd_msg_type := Some (str_lit ''already_exists''),
          dd_channel_data := Some stash_555\<rparr>\<rparr>] \<and>
   ctx_state (current (mgr (out_world
     (handle_channel_url_input no_faults url_message url_step_555)))) = OPMenu_menu \<and>
   dd_msg_type (dialog_data (out_world
     (handle_channel_url_input no_faults url_message url_step_555))) = None \<and>
   map win_text (out_shown (handle_channel_url_input no_faults url_message url_step_555)) =
     [lit_choose_action, lit_choose_action] \<and>
   db (out_world (handle_channel_url_input no_faults url_message url_step_555)) = one_each \<and>
   fst (show_window no_faults (set_msg_type (str_lit ''already_exists'') url_step_555)) =
     Inr \<lparr>win_text = lit_channel_exists, win_toggle = None\<rparr> \<and>
   ctx_state (current (mgr name_step_helper_bot)) = AddBotState_get_bot_name \<and>
   run_add_bot no_faults (db name_step_helper_bot) (str_lit ''Helper'') (str_lit ''helper_bot'')
     (str_lit ''https://t.me/helper_bot'') = Inl UniqueViolationError \<and>
   out_raised (handle_bot_name_input no_faults (text_message ''Helper'') name_step_helper_bot) =
     None \<and>
   out_closed (handle_bot_name_input no_faults (text_message ''Helper'') name_step_helper_bot) =
     [\<lparr>ctx_state = AddBotState_get_bot_name, ctx_start_data = None,
       ctx_dialog_data = empty_dialog_data
         \<lparr>dd_msg_type := Some (str_lit ''already_exists''),
          dd_bot_username := Some (str_lit ''helper_bot''),
          dd_bot_url := Some (str_lit ''https://t.me/helper_bot'')\<rparr>\<rparr>] \<and>
   ctx_state (current (mgr (out_world
     (handle_bot_name_input no_faults (text_message ''Helper'') name_step_helper_bot)))) =
     OPMenu_menu \<and>
   dd_msg_type (dialog_data (out_world
     (handle_bot_name_input no_faults (text_message ''Helper'') name_step_helper_bot))) = None \<and>
   map win_text
     (out_shown (handle_bot_name_input no_faults (text_message ''Helper'') name_step_helper_bot)) =
     [lit_choose_action, lit_choose_action] \<and>
   db (out_world (handle_bot_name_input no_faults (text_message ''Helper'') name_step_helper_bot)) =
     one_each"
  by (simp add: flow_defs flow_examples get_channel_link_texts_def get_add_channel_data_def
      strip_def isspace_def str_lit_def world_defs example_defs Let_def)

lemma forward_existing:
  assumes "forward_from_chat fwd = Some chat"
    and "\<not> fails e (Get_channel (Some (chat_id chat)))"
    and "get_channel (db w) (chat_id chat) = Some existing"
  shows "handle_channel_forward e fwd w =
     switch_to AddChannelState_get_channel_link
       (set_msg_type (str_lit ''already_exists'') (log_call (Get_channel (Some (chat_id chat))) w))"
  using assms by (simp add: handle_channel_forward_def world_defs Let_def)

text \<open>
  C2, as the code has it. A forwarded message whose chat id is already stored: the forward
  step writes the discriminator "already_exists" and switches to the URL state; it does
  not leave the flow and stashes nothing (the \<open>channel_data\<close> entry of the scratch is what
  it was). In a flow that has stashed nothing before, the URL step that follows finds no
  \<open>channel_data\<close>: it sets the discriminator "error" (the context it closes carries it)
  and closes the flow; none of its store calls is an add call, so there is no add attempt
  and no duplicate-key error. The store is unchanged throughout. With the OP menu below
  and its store reads answering, the handler returns with a fresh OP menu on top, drawn.
\<close>

theorem forward_existing_channel:
  "forward_from_chat fwd = Some chat \<and> \<not> fails e (Get_channel (Some (chat_id chat))) \<and>
   get_channel (db w) (chat_id chat) = Some existing \<longrightarrow>
     (let w1 = handle_channel_forward e fwd w
      in dd_msg_type (dialog_data w1) = Some (str_lit ''already_exists'') \<and>
         ctx_state (current (mgr w1)) = AddChannelState_get_channel_link \<and>
         stack (mgr w1) = stack (mgr w) \<and>
         dd_channel_data (dialog_data w1) = dd_channel_data (dialog_data w) \<and>
         db w1 = db w \<and>
         (dd_channel_data (dialog_data w) = None \<and> msg_text url_msg = Some t \<and> t \<noteq> [] \<longrightarrow>
            (let out = handle_channel_url_input e' url_msg w1
             in out_closed out =
                  [(current (mgr w1))\<lparr>ctx_dialog_data :=
                      (dialog_data w1)\<lparr>dd_msg_type := Some (str_lit ''error'')\<rparr>\<rparr>] \<and>
                (\<forall>c \<in> set (calls_made w1 (out_world out)). \<not> is_add c) \<and>
                db (out_world out) = db w \<and>
                (stack (mgr w) = parent # rest \<and> ctx_state parent = OPMenu_menu \<and>
                 \<not> fails e' Get_all_channels \<and> \<not> fails e' Get_all_bots \<longrightarrow>
                   out_raised out = None \<and>
                   mgr (out_world out) =
                     \<lparr>current = \<lparr>ctx_state = OPMenu_menu, ctx_start_data = None,
                                  ctx_dialog_data = empty_dialog_data\<rparr>,
                      stack = parent # rest\<rparr> \<and>
                   out_shown out = [op_menu_window (db w), op_menu_window (db w)]))))"
proof (intro impI, elim conjE)
  assume a: "forward_from_chat fwd = Some chat" "\<not> fails e (Get_channel (Some (chat_id chat)))"
    "get_channel (db w) (chat_id chat) = Some existing"
  let ?w1 = "handle_channel_forward e fwd w"
  have w1: "?w1 = switch_to AddChannelState_get_channel_link
       (set_msg_type (str_lit ''already_exists'') (log_call (Get_channel (Some (chat_id chat))) w))"
    using a by (rule forward_existing)
  have 1: "dd_msg_type (dialog_data ?w1) = Some (str_lit ''already_exists'')"
    and 2: "ctx_state (current (mgr ?w1)) = AddChannelState_get_channel_link"
    and 3: "stack (mgr ?w1) = stack (mgr w)"
    and 4: "dd_channel_data (dialog_data ?w1) = dd_channel_data (dialog_data w)"
    and 5: "db ?w1 = db w"
    by (simp_all add: w1 world_defs)
  have 6: "let out = handle_channel_url_input e' url_msg ?w1
             in out_closed out =
                  [(current (mgr ?w1))\<lparr>ctx_dialog_data :=
                      (dialog_data ?w1)\<lparr>dd_msg_type := Some (str_lit ''error'')\<rparr>\<rparr>] \<and>
                (\<forall>c \<in> set (calls_made ?w1 (out_world out)). \<not> is_add c) \<and>
                db (out_world out) = db w \<and>
                (stack (mgr w) = parent # rest \<and> ctx_state parent = OPMenu_menu \<and>
                 \<not> fails e' Get_all_channels \<and> \<not> fails e' Get_all_bots \<longrightarrow>
                   out_raised out = None \<and>
                   mgr (out_world out) =
                     \<lparr>current = \<lparr>ctx_state = OPMenu_menu, ctx_start_data = None,
                                  ctx_dialog_data = empty_dialog_data\<rparr>,
                      stack = parent # rest\<rparr> \<and>
                   out_shown out = [op_menu_window (db w), op_menu_window (db w)])"
    if b: "dd_channel_data (dialog_data w) = None" "msg_text url_msg = Some t" "t \<noteq> []"
  proof -
    let ?w' = "set_msg_type (str_lit ''error'') ?w1"
    from b(1) 4 have none: "dd_channel_data (dialog_data ?w1) = None" by simp
    have h: "handle_channel_url_input e' url_msg ?w1 = to_op_menu e' ?w'"
      using b(2,3) none by (rule url_step_without_stash)
    have same: "calls ?w' = calls ?w1" "db ?w' = db w" "stack (mgr ?w') = stack (mgr w)"
      using 3 5 by (simp_all add: world_defs)
    have c1: "out_closed (to_op_menu e' ?w') =
        [(current (mgr ?w1))\<lparr>ctx_dialog_data :=
            (dialog_data ?w1)\<lparr>dd_msg_type := Some (str_lit ''error'')\<rparr>\<rparr>]"
      by (rule closes_with_error)
    have c2: "\<forall>c \<in> set (calls_made ?w1 (out_world (to_op_menu e' ?w'))). \<not> is_add c"
      using no_add_after_to_op_menu [OF _ same(1)] by blast
    have c3: "db (out_world (to_op_menu e' ?w')) = db w"
      by (simp add: to_op_menu_db same)
    have c4: "out_raised (to_op_menu e' ?w') = None \<and>
        mgr (out_world (to_op_menu e' ?w')) =
          \<lparr>current = \<lparr>ctx_state = OPMenu_menu, ctx_start_data = None,
                       ctx_dialog_data = empty_dialog_data\<rparr>,
           stack = parent # rest\<rparr> \<and>
        out_shown (to_op_menu e' ?w') = [op_menu_window (db w), op_menu_window (db w)]"
      if "stack (mgr w) = parent # rest" "ctx_state parent = OPMenu_menu"
        "\<not> fails e' Get_all_channels" "\<not> fails e' Get_all_bots"
    proof -
      from that(1) same(3) have "stack (mgr ?w') = parent # rest" by simp
      from to_op_menu_from_menu [OF this that(2), of e'] that(3,4) show ?thesis
        by (simp add: same)
    qed
    show ?thesis unfolding Let_def h using c1 c2 c3 c4 by blast
  qed
  show "let w1 = ?w1
      in dd_msg_type (dialog_data w1) = Some (str_lit ''already_exists'') \<and>
         ctx_state (current (mgr w1)) = AddChannelState_get_channel_link \<and>
         stack (mgr w1) = stack (mgr w) \<and>
         dd_channel_data (dialog_data w1) = dd_channel_data (dialog_data w) \<and>
         db w1 = db w \<and>
         (dd_channel_data (dialog_data w) = None \<and> msg_text url_msg = Some t \<and> t \<noteq> [] \<longrightarrow>
            (let out = handle_channel_url_input e' url_msg w1
             in out_closed out =
                  [(current (mgr w1))\<lparr>ctx_dialog_data :=
                      (dialog_data w1)\<lparr>dd_msg_type := Some (str_lit ''error'')\<rparr>\<rparr>] \<and>
                (\<forall>c \<in> set (calls_made w1 (out_world out)). \<not> is_add c) \<and>
                db (out_world out) = db w \<and>
                (stack (mgr w) = parent # rest \<and> ctx_state parent = OPMenu_menu \<and>
                 \<not> fails e' Get_all_channels \<and> \<not> fails e' Get_all_bots \<longrightarrow>
                   out_raised out = None \<and>
                   mgr (out_world out) =
                     \<lparr>current = \<lparr>ctx_state = OPMenu_menu, ctx_start_data = None,
                                  ctx_dialog_data = empty_dialog_data\<rparr>,
                      stack = parent # rest\<rparr> \<and>
                   out_shown out = [op_menu_window (db w), op_menu_window (db w)])))"
    unfolding Let_def [of ?w1] using 1 2 3 4 5 6 by (intro conjI impI) (simp_all only:, blast)
qed

theorem forward_existing_channel_witness:
  "(let w1 = handle_channel_forward no_faults (forwarded_from 555 ''examplechan'') forward_step;
        out = handle_channel_url_input no_faults url_message w1
    in get_channel (db forward_step) 555 = Some (mk_channel 555 ''examplechan'' ''True'') \<and>
       dd_msg_type (dialog_data w1) = Some (str_lit ''already_exists'') \<and>
       ctx_state (current (mgr w1)) = AddChannelState_get_channel_link \<and>
       dd_channel_data (dialog_data w1) = None \<and>
       map (dd_msg_type \<circ> ctx_dialog_data) (out_closed out) = [Some (str_lit ''error'')] \<and>
       (\<forall>c \<in> set (calls_made w1 (out_world out)). \<not> is_add c) \<and>
       db (out_world out) = one_each \<and>
       out_raised out = None \<and>
       ctx_state (current (mgr (out_world out))) = OPMenu_menu)"
  using forward_existing_channel [where w = forward_step
      and e = no_faults and e' = no_faults and fwd = "forwarded_from 555 ''examplechan''"
      and chat = "\<lparr>chat_id = 555, full_name = Some (str_lit ''examplechan''),
                    username = Some (str_lit ''examplechan'')\<rparr>"
      and existing = "mk_channel 555 ''examplechan'' ''True''"
      and url_msg = url_message and t = "str_lit ''https://t.me/examplechan''"
      and parent = "\<lparr>ctx_state = OPMenu_menu, ctx_start_data = None,
                      ctx_dialog_data = empty_dialog_data\<rparr>" and rest = "[]"]
  by (simp add: get_channel_def forward_step_def url_message_def world_defs example_defs
      Let_def)

text \<open>
  C2 as stated fails: with channel 555 stored, forwarding from chat 555 and then sending a
  URL makes five store calls in all, the lookup of the forward step and the reads of the
  OP menu. No add is attempted.
\<close>

theorem forward_existing_channel_counterexample:
  "get_channel one_each 555 = Some (mk_channel 555 ''examplechan'' ''True'') \<and>
   calls (out_world (handle_channel_url_input no_faults url_message
            (handle_channel_forward no_faults (forwarded_from 555 ''examplechan'') forward_step))) =
     [Get_channel (Some 555), Get_all_channels, Get_all_bots, Get_all_channels, Get_all_bots]"
  by (simp add: flow_defs flow_examples world_defs example_defs str_lit_def Let_def)

lemma set_msg_type_frame:
  "db (set_msg_type v w) = db w"
  "calls (set_msg_type v w) = calls w"
  "ctx_state (current (mgr (set_msg_type v w))) = ctx_state (current (mgr w))"
  "ctx_start_data (current (mgr (set_msg_type v w))) = ctx_start_data (current (mgr w))"
  "stack (mgr (set_msg_type v w)) = stack (mgr w)"
  "dialog_data (set_msg_type v w) = (dialog_data w)\<lparr>dd_msg_type := Some v\<rparr>"
  "get_add_channel_data (set_msg_type v w) = v"
  "get_add_bot_data (set_msg_type v w) = v"
  by (simp_all add: get_add_channel_data_def get_add_bot_data_def world_defs)

lemma reprompt_windows:
  "ctx_state (current (mgr w)) = AddChannelState_get_channel_data \<Longrightarrow>
     show_window e (set_msg_type (str_lit ''not_forwarded'') w) =
       (Inr \<lparr>win_text = lit_not_forwarded, win_toggle = None\<rparr>,
        set_msg_type (str_lit ''not_forwarded'') w)"
  "ctx_state (current (mgr w)) = AddBotState_get_bot_username \<Longrightarrow>
     show_window e (set_msg_type (str_lit ''error_format'') w) =
       (Inr \<lparr>win_text = lit_bot_username_format, win_toggle = None\<rparr>,
        set_msg_type (str_lit ''error_format'') w)"
  "ctx_state (current (mgr w)) = AddBotState_get_bot_link \<Longrightarrow>
     show_window e (set_msg_type (str_lit ''error_format'') w) =
       (Inr \<lparr>win_text = lit_bot_link_format, win_toggle = None\<rparr>,
        set_msg_type (str_lit ''error_format'') w)"
  "ctx_state (current (mgr w)) = AddBotState_get_bot_name \<Longrightarrow>
     show_window e (set_msg_type (str_lit ''error_format'') w) =
       (Inr \<lparr>win_text = lit_bot_name_format, win_toggle = None\<rparr>,
        set_msg_type (str_lit ''error_format'') w)"
  by (simp_all add: show_window_def set_msg_type_frame render_case_def
      get_channel_data_texts_def get_bot_username_texts_def get_bot_link_texts_def
      get_bot_name_texts_def)

text \<open>
  The window of the channel URL step has no text for "error_format": drawing it after
  a message without text raises \<open>KeyError\<close>.
\<close>

lemma channel_url_window_lacks_error_format:
  "ctx_state (current (mgr w)) = AddChannelState_get_channel_link \<Longrightarrow>
     fst (show_window e (set_msg_type (str_lit ''error_format'') w)) = Inl KeyError"
  by (simp add: show_window_def set_msg_type_frame render_case_def get_channel_link_texts_def)

text \<open>
  C7, as the code has it. A message that is not forwarded at the channel forward step, and
  a message without text at each of the four text steps, make the handler write the
  discriminator ("not_forwarded", respectively "error_format") into the scratch and
  return. That write is the only change: the store, the record of store calls, the dialog
  state, the start data, the contexts below and every other scratch entry are as before,
  nothing is closed or drawn by the handler. At the forward step and at the three bot
  steps, the window of that step, drawn on the result, shows the text of that variant:
  the re-prompt. Nothing is stated here about the drawing at the channel URL step.
\<close>

theorem wrong_shape_reprompts:
  "(forward_from_chat message = None \<longrightarrow>
      handle_channel_forward e message w = set_msg_type (str_lit ''not_forwarded'') w \<and>
      (ctx_state (current (mgr w)) = AddChannelState_get_channel_data \<longrightarrow>
         show_window e' (handle_channel_forward e message w) =
           (Inr \<lparr>win_text = lit_not_forwarded, win_toggle = None\<rparr>,
            handle_channel_forward e message w))) \<and>
   (msg_text message = None \<or> msg_text message = Some [] \<longrightarrow>
      handle_channel_url_input e message w = returns (set_msg_type (str_lit ''error_format'') w) \<and>
      handle_bot_username_input e message w = set_msg_type (str_lit ''error_format'') w \<and>
      handle_bot_url_input message w = set_msg_type (str_lit ''error_format'') w \<and>
      handle_bot_name_input e message w = returns (set_msg_type (str_lit ''error_format'') w) \<and>
      (ctx_state (current (mgr w)) = AddBotState_get_bot_username \<longrightarrow>
         show_window e' (handle_bot_username_input e message w) =
           (Inr \<lparr>win_text = lit_bot_username_format, win_toggle = None\<rparr>,
            handle_bot_username_input e message w)) \<and>
      (ctx_state (current (mgr w)) = AddBotState_get_bot_link \<longrightarrow>
         show_window e' (handle_bot_url_input message w) =
           (Inr \<lparr>win_text = lit_bot_link_format, win_toggle = None\<rparr>,
            handle_bot_url_input message w)) \<and>
      (ctx_state (current (mgr w)) = AddBotState_get_bot_name \<longrightarrow>
         out_raised (handle_bot_name_input e message w) = None \<and>
         show_window e' (out_world (handle_bot_name_input e message w)) =
           (Inr \<lparr>win_text = lit_bot_name_format, win_toggle = None\<rparr>,
            out_world (handle_bot_name_input e message w)))) \<and>
   out_world (returns w) = w \<and> out_raised (returns w) = None \<and>
   out_closed (returns w) = [] \<and> out_shown (returns w) = [] \<and>
   db (set_msg_type v w) = db w \<and>
   calls (set_msg_type v w) = calls w \<and>
   ctx_state (current (mgr (set_msg_type v w))) = ctx_state (current (mgr w)) \<and>
   ctx_start_data (current (mgr (set_msg_type v w))) = ctx_start_data (current (mgr w)) \<and>
   stack (mgr (set_msg_type v w)) = stack (mgr w) \<and>
   dialog_data (set_msg_type v w) = (dialog_data w)\<lparr>dd_msg_type := Some v\<rparr>"
proof -
  have f: "handle_channel_forward e message w = set_msg_type (str_lit ''not_forwarded'') w"
    if "forward_from_chat message = None"
    using that by (simp add: handle_channel_forward_def)
  have t: "handle_channel_url_input e message w =
        returns (set_msg_type (str_lit ''error_format'') w)"
      "handle_bot_username_input e message w = set_msg_type (str_lit ''error_format'') w"
      "handle_bot_url_input message w = set_msg_type (str_lit ''error_format'') w"
      "handle_bot_name_input e message w = returns (set_msg_type (str_lit ''error_format'') w)"
    if "msg_text message = None \<or> msg_text message = Some []"
    using that
    by (auto simp add: handle_channel_url_input_def handle_bot_username_input_def
        handle_bot_url_input_def handle_bot_name_input_def)
  show ?thesis
    using f t by (auto simp add: reprompt_windows set_msg_type_frame returns_def)
qed

theorem wrong_shape_reprompts_witness:
  "(let w' = handle_channel_forward no_faults (text_message ''hello'') forward_step
    in db w' = one_each \<and> calls w' = [] \<and>
       ctx_state (current (mgr w')) = AddChannelState_get_channel_data \<and>
       fst (show_window no_faults w') =
         Inr \<lparr>win_text = lit_not_forwarded, win_toggle = None\<rparr>) \<and>
   (let w = in_dialog one_each AddBotState_get_bot_username None empty_dialog_data;
        w' = handle_bot_username_input no_faults photo_message w
    in db w' = one_each \<and> calls w' = [] \<and>
       ctx_state (current (mgr w')) = AddBotState_get_bot_username \<and>
       fst (show_window no_faults w') =
         Inr \<lparr>win_text = lit_bot_username_format, win_toggle = None\<rparr>)"
  using
    wrong_shape_reprompts [where w = forward_step
      and e = no_faults and e' = no_faults and message = "text_message ''hello''"
      and v = "str_lit ''not_forwarded''"]
    wrong_shape_reprompts [where
      w = "in_dialog one_each AddBotState_get_bot_username None empty_dialog_data"
      and e = no_faults and e' = no_faults and message = photo_message
      and v = "str_lit ''error_format''"]
  by (auto simp add: text_message_def photo_message_def forward_step_def in_dialog_def Let_def)

text \<open>
  C7 as stated fails: the session scratch is mutated, since the discriminator is part of it.
\<close>

theorem wrong_shape_reprompts_counterexample:
  "forward_from_chat (text_message ''hello'') = None \<and>
   dialog_data (handle_channel_forward no_faults (text_message ''hello'') forward_step) \<noteq>
   dialog_data forward_step"
  by (simp add: handle_channel_forward_def forward_step_def world_defs example_defs)

section \<open>The bot username step: proofs\<close>

lemma lstrip_at: "lstrip (str_lit ''@'') s = dropWhile (\<lambda>c. c = 64) s"
  by (simp add: lstrip_def str_lit_def)

lemma takeWhile_at: "takeWhile (\<lambda>c. c = (64::nat)) s = replicate (length (takeWhile (\<lambda>c. c = 64) s)) 64"
  by (induction s) simp_all

lemma lstrip_at_split: "\<exists>n. s = replicate n 64 @ lstrip (str_lit ''@'') s"
proof -
  have "takeWhile (\<lambda>c. c = 64) s @ dropWhile (\<lambda>c. c = 64) s = s"
    by (rule takeWhile_dropWhile_id)
  then have "s = replicate (length (takeWhile (\<lambda>c. c = 64) s)) 64 @ dropWhile (\<lambda>c. c = 64) s"
    using takeWhile_at [of s] by simp
  then show ?thesis unfolding lstrip_at by (rule exI)
qed

lemma lstrip_at_head: "lstrip (str_lit ''@'') s = [] \<or> hd (lstrip (str_lit ''@'') s) \<noteq> 64"
  unfolding lstrip_at using hd_dropWhile [of "\<lambda>c. c = 64" s] by auto

lemma lstrip_at_once:
  assumes "\<forall>r. s \<noteq> 64 # 64 # r"
  shows "lstrip (str_lit ''@'') s = (case s of [] \<Rightarrow> [] | c # r \<Rightarrow> if c = 64 then r else c # r)"
proof (cases s)
  case Nil
  then show ?thesis by (simp add: lstrip_at)
next
  case (Cons c r)
  show ?thesis
  proof (cases "c = 64")
    case False
    with Cons show ?thesis by (simp add: lstrip_at)
  next
    case True
    with Cons assms have "r = [] \<or> hd r \<noteq> 64" by (cases r) auto
    then have "dropWhile (\<lambda>c. c = 64) r = r" by (cases r) auto
    with Cons True show ?thesis by (simp add: lstrip_at)
  qed
qed

text \<open>
  C6, as the code has it. For every text input the handle is the input stripped of
  surrounding whitespace with all leading "@" removed: the stripped input is some number
  of "@" followed by the handle, and the handle does not start with "@". Where the
  stripped input does not start with two "@", this is the handle of the claim. If the
  lookup answers and a bot with that handle exists, the handler writes the discriminator
  "already_exists", stays in the username state and stashes nothing; if none exists, it
  stashes the handle and switches to the URL state. The store is unchanged.
\<close>

theorem bot_username_step:
  "msg_text message = Some t \<and> t \<noteq> [] \<and>
   \<not> fails e (Get_bot (Some (lstrip (str_lit ''@'') (strip t)))) \<longrightarrow>
     (let h = lstrip (str_lit ''@'') (strip t);
          w' = handle_bot_username_input e message w
      in (\<exists>n. strip t = replicate n 64 @ h) \<and> (h = [] \<or> hd h \<noteq> 64) \<and>
         ((\<forall>r. strip t \<noteq> 64 # 64 # r) \<longrightarrow> h = handle_minus_one_at t) \<and>
         db w' = db w \<and>
         (get_bot (db w) h \<noteq> None \<longrightarrow>
            dd_msg_type (dialog_data w') = Some (str_lit ''already_exists'') \<and>
            ctx_state (current (mgr w')) = ctx_state (current (mgr w)) \<and>
            dd_bot_username (dialog_data w') = dd_bot_username (dialog_data w)) \<and>
         (get_bot (db w) h = None \<longrightarrow>
            dd_bot_username (dialog_data w') = Some h \<and>
            ctx_state (current (mgr w')) = AddBotState_get_bot_link))"
proof (intro impI, elim conjE)
  assume t: "msg_text message = Some t" "t \<noteq> []"
    and ok: "\<not> fails e (Get_bot (Some (lstrip (str_lit ''@'') (strip t))))"
  let ?h = "lstrip (str_lit ''@'') (strip t)"
  let ?w' = "handle_bot_username_input e message w"
  have 1: "\<exists>n. strip t = replicate n 64 @ ?h"
    by (rule lstrip_at_split)
  have 2: "?h = [] \<or> hd ?h \<noteq> 64"
    by (rule lstrip_at_head)
  have 3: "(\<forall>r. strip t \<noteq> 64 # 64 # r) \<longrightarrow> ?h = handle_minus_one_at t"
    by (simp add: handle_minus_one_at_def lstrip_at_once)
  have 4: "db ?w' = db w"
    using t ok by (simp add: handle_bot_username_input_def world_defs Let_def split: option.splits)
  have 5: "get_bot (db w) ?h \<noteq> None \<longrightarrow>
      dd_msg_type (dialog_data ?w') = Some (str_lit ''already_exists'') \<and>
      ctx_state (current (mgr ?w')) = ctx_state (current (mgr w)) \<and>
      dd_bot_username (dialog_data ?w') = dd_bot_username (dialog_data w)"
    using t ok by (auto simp: handle_bot_username_input_def world_defs Let_def)
  have 6: "get_bot (db w) ?h = None \<longrightarrow>
      dd_bot_username (dialog_data ?w') = Some ?h \<and>
      ctx_state (current (mgr ?w')) = AddBotState_get_bot_link"
    using t ok by (simp add: handle_bot_username_input_def world_defs Let_def)
  show "let h = ?h; w' = ?w'
      in (\<exists>n. strip t = replicate n 64 @ h) \<and> (h = [] \<or> hd h \<noteq> 64) \<and>
         ((\<forall>r. strip t \<noteq> 64 # 64 # r) \<longrightarrow> h = handle_minus_one_at t) \<and>
         db w' = db w \<and>
         (get_bot (db w) h \<noteq> None \<longrightarrow>
            dd_msg_type (dialog_data w') = Some (str_lit ''already_exists'') \<and>
            ctx_state (current (mgr w')) = ctx_state (current (mgr w)) \<and>
            dd_bot_username (dialog_data w') = dd_bot_username (dialog_data w)) \<and>
         (get_bot (db w) h = None \<longrightarrow>
            dd_bot_username (dialog_data w') = Some h \<and>
            ctx_state (current (mgr w')) = AddBotState_get_bot_link)"
    unfolding Let_def by (intro conjI 1 2 3 4 5 6)
qed

theorem bot_username_step_witness:
  "(let w = in_dialog one_each AddBotState_get_bot_username None empty_dialog_data;
        w' = handle_bot_username_input no_faults (text_message '' @new_bot '') w
    in lstrip (str_lit ''@'') (strip (str_lit '' @new_bot '')) = str_lit ''new_bot'' \<and>
       get_bot (db w) (str_lit ''new_bot'') = None \<and>
       dd_bot_username (dialog_data w') = Some (str_lit ''new_bot'') \<and>
       ctx_state (current (mgr w')) = AddBotState_get_bot_link)"
proof -
  let ?w = "in_dialog one_each AddBotState_get_bot_username None empty_dialog_data"
  let ?m = "text_message '' @new_bot ''"
  let ?t = "str_lit '' @new_bot ''"
  have h: "lstrip (str_lit ''@'') (strip ?t) = str_lit ''new_bot''"
    by (simp add: lstrip_def strip_def isspace_def str_lit_def)
  have hyp: "msg_text ?m = Some ?t \<and> ?t \<noteq> [] \<and>
      \<not> fails no_faults (Get_bot (Some (lstrip (str_lit ''@'') (strip ?t))))"
    by (simp add: text_message_def no_faults_def str_lit_def)
  have absent: "get_bot (db ?w) (str_lit ''new_bot'') = None"
    by (simp add: get_bot_def one_each_def mk_bot_def in_dialog_def)
  from bot_username_step [where w = ?w and e = no_faults and message = ?m and t = ?t] hyp
  have "get_bot (db ?w) (lstrip (str_lit ''@'') (strip ?t)) = None \<longrightarrow>
      dd_bot_username (dialog_data (handle_bot_username_input no_faults ?m ?w)) =
        Some (lstrip (str_lit ''@'') (strip ?t)) \<and>
      ctx_state (current (mgr (handle_bot_username_input no_faults ?m ?w))) =
        AddBotState_get_bot_link"
    unfolding Let_def by blast
  with h absent show ?thesis by (simp add: Let_def)
qed

text \<open>
  C6 as stated fails: for the input "@@new_bot" the stashed handle is "new_bot", while
  removing one leading "@" and keeping the rest gives "@new_bot".
\<close>

theorem bot_username_step_counterexample:
  "msg_text (text_message ''@@new_bot'') = Some (str_lit ''@@new_bot'') \<and>
   dd_bot_username (dialog_data (handle_bot_username_input no_faults (text_message ''@@new_bot'')
      (in_dialog one_each AddBotState_get_bot_username None empty_dialog_data))) =
     Some (str_lit ''new_bot'') \<and>
   handle_minus_one_at (str_lit ''@@new_bot'') = str_lit ''@new_bot'' \<and>
   str_lit ''new_bot'' \<noteq> str_lit ''@new_bot''"
proof -
  have "lstrip (str_lit ''@'') (strip (str_lit ''@@new_bot'')) = str_lit ''new_bot''"
    by (simp add: lstrip_def strip_def isspace_def str_lit_def)
  moreover have "handle_minus_one_at (str_lit ''@@new_bot'') = str_lit ''@new_bot''"
    by (simp add: handle_minus_one_at_def strip_def isspace_def str_lit_def)
  moreover have "get_bot one_each (str_lit ''new_bot'') = None"
    by (simp add: get_bot_def one_each_def mk_bot_def)
  ultimately show ?thesis
    by (simp add: handle_bot_username_input_def world_defs text_message_def no_faults_def
        in_dialog_def empty_dialog_data_def Let_def)
qed

section \<open>The status toggle: proofs\<close>

lemma find_update_same:
  "find (\<lambda>c. key c = k) (map (\<lambda>c. if key c = k then upd c else c) xs) =
   map_option upd (find (\<lambda>c. key c = k) xs)"
  if "\<And>c. key (upd c) = key c"
  using that by (induction xs) auto

lemma get_channel_update:
  "get_channel (update_channel_status d s k) k =
     map_option (\<lambda>c. c\<lparr>c_status := s\<rparr>) (get_channel d k)"
  by (simp add: get_channel_def update_channel_status_def find_update_same)

lemma get_bot_update:
  "get_bot (update_bot_status d s k) k = map_option (\<lambda>b. b\<lparr>b_status := s\<rparr>) (get_bot d k)"
  by (simp add: get_bot_def update_bot_status_def find_update_same)

lemma toggle_channel_run:
  assumes "dd_channel_id (dialog_data w) = Some k" "k \<noteq> 0"
    and "get_channel (db w) k = Some c"
    and "\<not> fails e (Get_channel (Some k))"
    and "\<not> fails e (Update_channel_status
            (if c_status c = str_lit ''True'' then str_lit ''False'' else str_lit ''True'') k)"
  shows "handle_toggle_channel_op_status e w =
     switch_to ChannelMenu_menu
       (w\<lparr>db := update_channel_status (db w)
              (if c_status c = str_lit ''True'' then str_lit ''False'' else str_lit ''True'') k,
          calls := calls w @ [Get_channel (Some k), Update_channel_status
              (if c_status c = str_lit ''True'' then str_lit ''False'' else str_lit ''True'') k]\<rparr>)"
  using assms
  by (simp add: handle_toggle_channel_op_status_def world_defs Let_def)

lemma toggle_bot_run:
  assumes "dd_bot_username (dialog_data w) = Some k" "k \<noteq> []"
    and "get_bot (db w) k = Some b"
    and "\<not> fails e (Get_bot (Some k))"
    and "\<not> fails e (Update_bot_status
            (if b_status b = str_lit ''True'' then str_lit ''False'' else str_lit ''True'') k)"
  shows "handle_toggle_bot_op_status e w =
     switch_to BotMenu_menu
       (w\<lparr>db := update_bot_status (db w)
              (if b_status b = str_lit ''True'' then str_lit ''False'' else str_lit ''True'') k,
          calls := calls w @ [Get_bot (Some k), Update_bot_status
              (if b_status b = str_lit ''True'' then str_lit ''False'' else str_lit ''True'') k]\<rparr>)"
  using assms
  by (simp add: handle_toggle_bot_op_status_def world_defs Let_def)

lemma toggle_channel_twice:
  assumes key: "dd_channel_id (dialog_data w) = Some k" "k \<noteq> 0"
    and row: "get_channel (db w) k = Some c"
    and s: "c_status c = str_lit ''True'' \<or> c_status c = str_lit ''False''"
    and ok: "\<not> fails e (Get_channel (Some k))"
      "\<not> fails e (Update_channel_status (str_lit ''True'') k)"
      "\<not> fails e (Update_channel_status (str_lit ''False'') k)"
  defines "s' \<equiv> (if c_status c = str_lit ''True'' then str_lit ''False'' else str_lit ''True'')"
  defines "w1 \<equiv> handle_toggle_channel_op_status e w"
  defines "w2 \<equiv> handle_toggle_channel_op_status e w1"
  shows "calls_made w w1 = [Get_channel (Some k), Update_channel_status s' k]"
    and "get_channel (db w1) k = Some (c\<lparr>c_status := s'\<rparr>)"
    and "s' \<noteq> c_status c"
    and "ctx_state (current (mgr w1)) = ChannelMenu_menu"
    and "get_channel (db w2) k = Some c"
    and "ctx_state (current (mgr w2)) = ChannelMenu_menu"
proof -
  have ok': "\<not> fails e (Update_channel_status s' k)"
    using ok by (simp add: s'_def)
  have w1: "w1 = switch_to ChannelMenu_menu
       (w\<lparr>db := update_channel_status (db w) s' k,
          calls := calls w @ [Get_channel (Some k), Update_channel_status s' k]\<rparr>)"
    unfolding w1_def s'_def
    using key row ok(1) ok' [unfolded s'_def] by (rule toggle_channel_run)
  show "calls_made w w1 = [Get_channel (Some k), Update_channel_status s' k]"
    by (simp add: w1 world_defs)
  show row1: "get_channel (db w1) k = Some (c\<lparr>c_status := s'\<rparr>)"
    by (simp add: w1 world_defs get_channel_update row)
  show "s' \<noteq> c_status c"
    using s by (auto simp: s'_def)
  show "ctx_state (current (mgr w1)) = ChannelMenu_menu"
    by (simp add: w1 world_defs)
  have key1: "dd_channel_id (dialog_data w1) = Some k"
    using key by (simp add: w1 world_defs)
  have flip_back: "(if c_status (c\<lparr>c_status := s'\<rparr>) = str_lit ''True'' then str_lit ''False''
               else str_lit ''True'') = c_status c"
    using s by (auto simp: s'_def)
  have ok1: "\<not> fails e (Update_channel_status
      (if c_status (c\<lparr>c_status := s'\<rparr>) = str_lit ''True'' then str_lit ''False''
       else str_lit ''True'') k)"
    using s ok unfolding flip_back by auto
  have w2: "w2 = switch_to ChannelMenu_menu
       (w1\<lparr>db := update_channel_status (db w1) (c_status c) k,
           calls := calls w1 @ [Get_channel (Some k), Update_channel_status (c_status c) k]\<rparr>)"
    unfolding w2_def
    using toggle_channel_run [OF key1 key(2) row1 ok(1) ok1] unfolding flip_back .
  show "get_channel (db w2) k = Some c"
    by (simp add: w2 world_defs get_channel_update row1)
  show "ctx_state (current (mgr w2)) = ChannelMenu_menu"
    by (simp add: w2 world_defs)
qed

lemma toggle_bot_twice:
  assumes key: "dd_bot_username (dialog_data w) = Some k" "k \<noteq> []"
    and row: "get_bot (db w) k = Some c"
    and s: "b_status c = str_lit ''True'' \<or> b_status c = str_lit ''False''"
    and ok: "\<not> fails e (Get_bot (Some k))"
      "\<not> fails e (Update_bot_status (str_lit ''True'') k)"
      "\<not> fails e (Update_bot_status (str_lit ''False'') k)"
  defines "s' \<equiv> (if b_status c = str_lit ''True'' then str_lit ''False'' else str_lit ''True'')"
  defines "w1 \<equiv> handle_toggle_bot_op_status e w"
  defines "w2 \<equiv> handle_toggle_bot_op_status e w1"
  shows "calls_made w w1 = [Get_bot (Some k), Update_bot_status s' k]"
    and "get_bot (db w1) k = Some (c\<lparr>b_status := s'\<rparr>)"
    and "s' \<noteq> b_status c"
    and "ctx_state (current (mgr w1)) = BotMenu_menu"
    and "get_bot (db w2) k = Some c"
    and "ctx_state (current (mgr w2)) = BotMenu_menu"
proof -
  have ok': "\<not> fails e (Update_bot_status s' k)"
    using ok by (simp add: s'_def)
  have w1: "w1 = switch_to BotMenu_menu
       (w\<lparr>db := update_bot_status (db w) s' k,
          calls := calls w @ [Get_bot (Some k), Update_bot_status s' k]\<rparr>)"
    unfolding w1_def s'_def
    using key row ok(1) ok' [unfolded s'_def] by (rule toggle_bot_run)
  show "calls_made w w1 = [Get_bot (Some k), Update_bot_status s' k]"
    by (simp add: w1 world_defs)
  show row1: "get_bot (db w1) k = Some (c\<lparr>b_status := s'\<rparr>)"
    by (simp add: w1 world_defs get_bot_update row)
  show "s' \<noteq> b_status c"
    using s by (auto simp: s'_def)
  show "ctx_state (current (mgr w1)) = BotMenu_menu"
    by (simp add: w1 world_defs)
  have key1: "dd_bot_username (dialog_data w1) = Some k"
    using key by (simp add: w1 world_defs)
  have flip_back: "(if b_status (c\<lparr>b_status := s'\<rparr>) = str_lit ''True'' then str_lit ''False''
               else str_lit ''True'') = b_status c"
    using s by (auto simp: s'_def)
  have ok1: "\<not> fails e (Update_bot_status
      (if b_status (c\<lparr>b_status := s'\<rparr>) = str_lit ''True'' then str_lit ''False''
       else str_lit ''True'') k)"
    using s ok unfolding flip_back by auto
  have w2: "w2 = switch_to BotMenu_menu
       (w1\<lparr>db := update_bot_status (db w1) (b_status c) k,
           calls := calls w1 @ [Get_bot (Some k), Update_bot_status (b_status c) k]\<rparr>)"
    unfolding w2_def
    using toggle_bot_run [OF key1 key(2) row1 ok(1) ok1] unfolding flip_back .
  show "get_bot (db w2) k = Some c"
    by (simp add: w2 world_defs get_bot_update row1)
  show "ctx_state (current (mgr w2)) = BotMenu_menu"
    by (simp add: w2 world_defs)
qed

text \<open>
  C5. Take a stored channel whose status is "True" or "False", in a session whose scratch
  holds the channel's id (where the detail view's getter puts it; the handler's guard
  \<open>if not channel_id\<close> wants it non-zero), with the store answering. One toggle issues
  the lookup and then the update with the other literal, after which the stored row is
  the old row with the other literal as status, and the dialog is in the detail state
  \<open>ChannelMenu.menu\<close>. A second toggle gives back the original row. The same holds for a
  bot, keyed by its non-empty handle, with detail state \<open>BotMenu.menu\<close>.
\<close>

theorem toggle_flips_status:
  "(dd_channel_id (dialog_data w) = Some k \<and> k \<noteq> 0 \<and> get_channel (db w) k = Some c \<and>
    (c_status c = str_lit ''True'' \<or> c_status c = str_lit ''False'') \<and>
    \<not> fails e (Get_channel (Some k)) \<and>
    \<not> fails e (Update_channel_status (str_lit ''True'') k) \<and>
    \<not> fails e (Update_channel_status (str_lit ''False'') k) \<longrightarrow>
      (let s' = (if c_status c = str_lit ''True'' then str_lit ''False'' else str_lit ''True'');
           w1 = handle_toggle_channel_op_status e w;
           w2 = handle_toggle_channel_op_status e w1
       in calls_made w w1 = [Get_channel (Some k), Update_channel_status s' k] \<and>
          get_channel (db w1) k = Some (c\<lparr>c_status := s'\<rparr>) \<and>
          s' \<noteq> c_status c \<and>
          ctx_state (current (mgr w1)) = ChannelMenu_menu \<and>
          get_channel (db w2) k = Some c \<and>
          ctx_state (current (mgr w2)) = ChannelMenu_menu)) \<and>
   (dd_bot_username (dialog_data w) = Some u \<and> u \<noteq> [] \<and> get_bot (db w) u = Some b \<and>
    (b_status b = str_lit ''True'' \<or> b_status b = str_lit ''False'') \<and>
    \<not> fails e (Get_bot (Some u)) \<and>
    \<not> fails e (Update_bot_status (str_lit ''True'') u) \<and>
    \<not> fails e (Update_bot_status (str_lit ''False'') u) \<longrightarrow>
      (let s' = (if b_status b = str_lit ''True'' then str_lit ''False'' else str_lit ''True'');
           w1 = handle_toggle_bot_op_status e w;
           w2 = handle_toggle_bot_op_status e w1
       in calls_made w w1 = [Get_bot (Some u), Update_bot_status s' u] \<and>
          get_bot (db w1) u = Some (b\<lparr>b_status := s'\<rparr>) \<and>
          s' \<noteq> b_status b \<and>
          ctx_state (current (mgr w1)) = BotMenu_menu \<and>
          get_bot (db w2) u = Some b \<and>
          ctx_state (current (mgr w2)) = BotMenu_menu))"
  unfolding Let_def
  by (intro conjI impI; elim conjE)
     (erule (6) toggle_channel_twice toggle_bot_twice)+

theorem toggle_flips_status_witness:
  "(let w = in_dialog one_each ChannelMenu_menu
              (Some \<lparr>sd_channel_id = Some 555, sd_bot_username = None\<rparr>)
              (empty_dialog_data\<lparr>dd_channel_id := Some 555\<rparr>);
        w1 = handle_toggle_channel_op_status no_faults w;
        w2 = handle_toggle_channel_op_status no_faults w1
    in get_channel (db w) 555 = Some (mk_channel 555 ''examplechan'' ''True'') \<and>
       get_channel (db w1) 555 = Some (mk_channel 555 ''examplechan'' ''False'') \<and>
       ctx_state (current (mgr w1)) = ChannelMenu_menu \<and>
       get_channel (db w2) 555 = Some (mk_channel 555 ''examplechan'' ''True'')) \<and>
   (let w = in_dialog one_each BotMenu_menu
              (Some \<lparr>sd_channel_id = None, sd_bot_username = Some (str_lit ''helper_bot'')\<rparr>)
              (empty_dialog_data\<lparr>dd_bot_username := Some (str_lit ''helper_bot'')\<rparr>);
        w1 = handle_toggle_bot_op_status no_faults w;
        w2 = handle_toggle_bot_op_status no_faults w1
    in get_bot (db w) (str_lit ''helper_bot'') = Some (mk_bot ''Helper'' ''helper_bot'' ''False'') \<and>
       get_bot (db w1) (str_lit ''helper_bot'') = Some (mk_bot ''Helper'' ''helper_bot'' ''True'') \<and>
       ctx_state (current (mgr w1)) = BotMenu_menu \<and>
       get_bot (db w2) (str_lit ''helper_bot'') = Some (mk_bot ''Helper'' ''helper_bot'' ''False''))"
  using
    toggle_flips_status [where
      w = "in_dialog one_each ChannelMenu_menu
             (Some \<lparr>sd_channel_id = Some 555, sd_bot_username = None\<rparr>)
             (empty_dialog_data\<lparr>dd_channel_id := Some 555\<rparr>)"
      and e = no_faults and k = 555 and c = "mk_channel 555 ''examplechan'' ''True''"
      and u = "[]"]
    toggle_flips_status [where
      w = "in_dialog one_each BotMenu_menu
             (Some \<lparr>sd_channel_id = None, sd_bot_username = Some (str_lit ''helper_bot'')\<rparr>)
             (empty_dialog_data\<lparr>dd_bot_username := Some (str_lit ''helper_bot'')\<rparr>)"
      and e = no_faults and u = "str_lit ''helper_bot''"
      and b = "mk_bot ''Helper'' ''helper_bot'' ''False''" and k = 0]
  by (simp add: get_channel_def get_bot_def dialog_data_def no_faults_def one_each_def
      mk_channel_def mk_bot_def in_dialog_def empty_dialog_data_def Let_def)

lemma toggle_channel_update_calls:
  "Update_channel_status s k \<in> set (calls_made w (handle_toggle_channel_op_status e w)) \<Longrightarrow>
   s = str_lit ''True'' \<or> s = str_lit ''False''"
  by (auto simp: handle_toggle_channel_op_status_def world_defs Let_def
      split: option.splits if_splits)

lemma toggle_bot_update_calls:
  "Update_bot_status s k \<in> set (calls_made w (handle_toggle_bot_op_status e w)) \<Longrightarrow>
   s = str_lit ''True'' \<or> s = str_lit ''False''"
  by (auto simp: handle_toggle_bot_op_status_def world_defs Let_def
      split: option.splits if_splits)

text \<open>
  C9. Every status update a toggle issues, on any run, carries "True" or "False". On the
  run where the key is in the scratch, the entity is stored and the store answers, the
  persisted status is "False" when the prior status equals "True" and "True" for every
  other prior value, whatever that value is; it is one of the two literals.
\<close>

theorem toggle_persists_literal:
  "(Update_channel_status s0 k0 \<in> set (calls_made w (handle_toggle_channel_op_status e w)) \<longrightarrow>
      s0 = str_lit ''True'' \<or> s0 = str_lit ''False'') \<and>
   (Update_bot_status s1 u1 \<in> set (calls_made w (handle_toggle_bot_op_status e w)) \<longrightarrow>
      s1 = str_lit ''True'' \<or> s1 = str_lit ''False'') \<and>
   (dd_channel_id (dialog_data w) = Some k \<and> k \<noteq> 0 \<and> get_channel (db w) k = Some c \<and>
    \<not> fails e (Get_channel (Some k)) \<and>
    \<not> fails e (Update_channel_status
         (if c_status c = str_lit ''True'' then str_lit ''False'' else str_lit ''True'') k) \<longrightarrow>
      (let s' = (if c_status c = str_lit ''True'' then str_lit ''False'' else str_lit ''True'');
           w' = handle_toggle_channel_op_status e w
       in calls_made w w' = [Get_channel (Some k), Update_channel_status s' k] \<and>
          db w' = update_channel_status (db w) s' k \<and>
          get_channel (db w') k = Some (c\<lparr>c_status := s'\<rparr>) \<and>
          (s' = str_lit ''True'' \<or> s' = str_lit ''False''))) \<and>
   (dd_bot_username (dialog_data w) = Some u \<and> u \<noteq> [] \<and> get_bot (db w) u = Some b \<and>
    \<not> fails e (Get_bot (Some u)) \<and>
    \<not> fails e (Update_bot_status
         (if b_status b = str_lit ''True'' then str_lit ''False'' else str_lit ''True'') u) \<longrightarrow>
      (let s' = (if b_status b = str_lit ''True'' then str_lit ''False'' else str_lit ''True'');
           w' = handle_toggle_bot_op_status e w
       in calls_made w w' = [Get_bot (Some u), Update_bot_status s' u] \<and>
          db w' = update_bot_status (db w) s' u \<and>
          get_bot (db w') u = Some (b\<lparr>b_status := s'\<rparr>) \<and>
          (s' = str_lit ''True'' \<or> s' = str_lit ''False'')))"
proof (intro conjI impI; (elim conjE)?)
  assume "Update_channel_status s0 k0 \<in> set (calls_made w (handle_toggle_channel_op_status e w))"
  then show "s0 = str_lit ''True'' \<or> s0 = str_lit ''False''"
    by (rule toggle_channel_update_calls)
next
  assume "Update_bot_status s1 u1 \<in> set (calls_made w (handle_toggle_bot_op_status e w))"
  then show "s1 = str_lit ''True'' \<or> s1 = str_lit ''False''"
    by (rule toggle_bot_update_calls)
next
  assume "dd_channel_id (dialog_data w) = Some k" "k \<noteq> 0" "get_channel (db w) k = Some c"
    "\<not> fails e (Get_channel (Some k))"
    "\<not> fails e (Update_channel_status
         (if c_status c = str_lit ''True'' then str_lit ''False'' else str_lit ''True'') k)"
  then show "let s' = (if c_status c = str_lit ''True'' then str_lit ''False'' else str_lit ''True'');
           w' = handle_toggle_channel_op_status e w
       in calls_made w w' = [Get_channel (Some k), Update_channel_status s' k] \<and>
          db w' = update_channel_status (db w) s' k \<and>
          get_channel (db w') k = Some (c\<lparr>c_status := s'\<rparr>) \<and>
          (s' = str_lit ''True'' \<or> s' = str_lit ''False'')"
    by (simp add: toggle_channel_run get_channel_update world_defs Let_def)
next
  assume "dd_bot_username (dialog_data w) = Some u" "u \<noteq> []" "get_bot (db w) u = Some b"
    "\<not> fails e (Get_bot (Some u))"
    "\<not> fails e (Update_bot_status
         (if b_status b = str_lit ''True'' then str_lit ''False'' else str_lit ''True'') u)"
  then show "let s' = (if b_status b = str_lit ''True'' then str_lit ''False'' else str_lit ''True'');
           w' = handle_toggle_bot_op_status e w
       in calls_made w w' = [Get_bot (Some u), Update_bot_status s' u] \<and>
          db w' = update_bot_status (db w) s' u \<and>
          get_bot (db w') u = Some (b\<lparr>b_status := s'\<rparr>) \<and>
          (s' = str_lit ''True'' \<or> s' = str_lit ''False'')"
    by (simp add: toggle_bot_run get_bot_update world_defs Let_def)
qed

theorem toggle_persists_literal_witness:
  "(let w = in_dialog odd_status ChannelMenu_menu
              (Some \<lparr>sd_channel_id = Some 7, sd_bot_username = None\<rparr>)
              (empty_dialog_data\<lparr>dd_channel_id := Some 7\<rparr>);
        w' = handle_toggle_channel_op_status no_faults w
    in get_channel (db w) 7 = Some (mk_channel 7 ''seven'' ''yes'') \<and>
       calls_made w w' = [Get_channel (Some 7), Update_channel_status (str_lit ''True'') 7] \<and>
       get_channel (db w') 7 = Some (mk_channel 7 ''seven'' ''True'')) \<and>
   (let w = in_dialog odd_status BotMenu_menu
              (Some \<lparr>sd_channel_id = None, sd_bot_username = Some (str_lit ''eight_bot'')\<rparr>)
              (empty_dialog_data\<lparr>dd_bot_username := Some (str_lit ''eight_bot'')\<rparr>);
        w' = handle_toggle_bot_op_status no_faults w
    in get_bot (db w) (str_lit ''eight_bot'') = Some (mk_bot ''Eight'' ''eight_bot'' ''no'') \<and>
       calls_made w w' =
         [Get_bot (Some (str_lit ''eight_bot'')),
          Update_bot_status (str_lit ''True'') (str_lit ''eight_bot'')] \<and>
       get_bot (db w') (str_lit ''eight_bot'') = Some (mk_bot ''Eight'' ''eight_bot'' ''True''))"
  using
    toggle_persists_literal [where
      w = "in_dialog odd_status ChannelMenu_menu
             (Some \<lparr>sd_channel_id = Some 7, sd_bot_username = None\<rparr>)
             (empty_dialog_data\<lparr>dd_channel_id := Some 7\<rparr>)"
      and e = no_faults and k = 7 and c = "mk_channel 7 ''seven'' ''yes''" and u = "[]"]
    toggle_persists_literal [where
      w = "in_dialog odd_status BotMenu_menu
             (Some \<lparr>sd_channel_id = None, sd_bot_username = Some (str_lit ''eight_bot'')\<rparr>)
             (empty_dialog_data\<lparr>dd_bot_username := Some (str_lit ''eight_bot'')\<rparr>)"
      and e = no_faults and u = "str_lit ''eight_bot''"
      and b = "mk_bot ''Eight'' ''eight_bot'' ''no''" and k = 0]
  by (simp add: get_channel_def get_bot_def update_channel_status_def update_bot_status_def
      dialog_data_def no_faults_def odd_status_def mk_channel_def mk_bot_def in_dialog_def
      empty_dialog_data_def Let_def)

section \<open>The detail views: proofs\<close>

lemma op_button_labels:
  "lit_remove_from_op \<noteq> lit_add_to_op" "lit_dash \<noteq> lit_remove_from_op" "lit_dash \<noteq> lit_add_to_op"
  by (simp_all add: lit_remove_from_op_def lit_add_to_op_def lit_dash_def)

lemma read_digits_snoc: "read_digits (ds @ [d]) = 10 * read_digits ds + (d - 48)"
  by (simp add: read_digits_def)

lemma read_digits_str_nat: "read_digits (str_nat n) = n"
proof (induction n rule: str_nat.induct)
  case (1 n)
  show ?case
  proof (cases "n < 10")
    case True
    then show ?thesis by (simp add: str_nat.simps [of n] read_digits_def)
  next
    case False
    with 1 have "read_digits (str_nat (n div 10)) = n div 10" by simp
    with False show ?thesis
      by (simp add: str_nat.simps [of n] read_digits_snoc)
  qed
qed

lemma str_nat_digits: "str_nat n \<noteq> [] \<and> (\<forall>d \<in> set (str_nat n). 48 \<le> d \<and> d \<le> 57)"
proof (induction n rule: str_nat.induct)
  case (1 n)
  show ?case
  proof (cases "n < 10")
    case True
    then show ?thesis by (simp add: str_nat.simps [of n])
  next
    case False
    with 1 have "\<forall>d \<in> set (str_nat (n div 10)). 48 \<le> d \<and> d \<le> 57" by simp
    moreover have "n mod 10 < 10" by simp
    ultimately show ?thesis using False
      by (auto simp add: str_nat.simps [of n])
  qed
qed

lemma read_decimal_str_int: "read_decimal (str_int i) = i"
proof (cases "i < 0")
  case True
  then show ?thesis
    by (simp add: read_decimal_def str_int_def read_digits_str_nat)
next
  case False
  obtain c ds where cds: "str_nat (nat i) = c # ds"
    using str_nat_digits [of "nat i"] by (cases "str_nat (nat i)") auto
  with str_nat_digits [of "nat i"] have "c \<noteq> 45" by auto
  with False cds show ?thesis
    using read_digits_str_nat [of "nat i"]
    by (simp add: read_decimal_def str_int_def)
qed

lemma channel_view_present:
  assumes "ctx_start_data (current (mgr w)) = Some sd" "sd_channel_id sd = Some k"
    and "\<not> fails e (Get_channel (Some k))" and "get_channel (db w) k = Some c"
  shows "fst (get_channel_info_data e w) =
     Inr \<lparr>cv_channel_data =
            lit_channel_head @
            lit_id_open @ str_int (c_id c) @ lit_id_close @
            lit_name @ c_name c @ [10] @
            lit_username @
              (case c_username c of None \<Rightarrow> lit_not_given
               | Some h \<Rightarrow> if h = [] then lit_not_given else h) @ [10] @
            lit_status @ (if c_status c = str_lit ''True'' then lit_active else lit_inactive) @ [10] @
            lit_link @ c_url c @ [10],
          cv_op_button =
            (if c_status c = str_lit ''True'' then lit_remove_from_op else lit_add_to_op)\<rparr>"
  using assms by (simp add: get_channel_info_data_def or_else_def world_defs Let_def)

lemma bot_view_present:
  assumes "ctx_start_data (current (mgr w)) = Some sd" "sd_bot_username sd = Some u"
    and "\<not> fails e (Get_bot (Some u))" and "get_bot (db w) u = Some b"
  shows "fst (get_bot_info_data e w) =
     Inr \<lparr>bv_bot_data =
            lit_bot_head @
            lit_name @ b_name b @ [10] @
            lit_username @ b_username b @ [10] @
            lit_status @ (if b_status b = str_lit ''True'' then lit_active else lit_inactive) @ [10] @
            lit_link @ b_url b @ [10],
          bv_op_button =
            (if b_status b = str_lit ''True'' then lit_remove_from_op else lit_add_to_op)\<rparr>"
  using assms by (simp add: get_bot_info_data_def world_defs Let_def)

lemma channel_view_absent:
  assumes "ctx_start_data (current (mgr w)) = Some sd" "sd_channel_id sd = Some k"
    and "ctx_state (current (mgr w)) = ChannelMenu_menu"
    and "\<not> fails e (Get_channel (Some k))" and "get_channel (db w) k = None"
  shows "fst (get_channel_info_data e w) =
           Inr \<lparr>cv_channel_data = lit_channel_not_found, cv_op_button = lit_dash\<rparr>"
    and "db (handle_toggle_channel_op_status e' (snd (get_channel_info_data e w))) = db w"
    and "mgr (handle_toggle_channel_op_status e' (snd (get_channel_info_data e w))) =
           mgr (snd (get_channel_info_data e w))"
    and "k \<noteq> 0 \<longrightarrow>
           calls_made (snd (get_channel_info_data e w))
             (handle_toggle_channel_op_status e' (snd (get_channel_info_data e w))) =
           [Get_channel (Some k)]"
  using assms
  by (simp_all add: get_channel_info_data_def handle_toggle_channel_op_status_def world_defs
      Let_def)

lemma bot_view_absent:
  assumes "ctx_start_data (current (mgr w)) = Some sd" "sd_bot_username sd = Some u"
    and "ctx_state (current (mgr w)) = BotMenu_menu"
    and "\<not> fails e (Get_bot (Some u))" and "get_bot (db w) u = None"
  shows "fst (get_bot_info_data e w) =
           Inr \<lparr>bv_bot_data = lit_bot_not_found, bv_op_button = lit_dash\<rparr>"
    and "db (handle_toggle_bot_op_status e' (snd (get_bot_info_data e w))) = db w"
    and "mgr (handle_toggle_bot_op_status e' (snd (get_bot_info_data e w))) =
           mgr (snd (get_bot_info_data e w))"
    and "u \<noteq> [] \<longrightarrow>
           calls_made (snd (get_bot_info_data e w))
             (handle_toggle_bot_op_status e' (snd (get_bot_info_data e w))) =
           [Get_bot (Some u)]"
  using assms
  by (simp_all add: get_bot_info_data_def handle_toggle_bot_op_status_def world_defs Let_def)

lemma detail_windows:
  "ctx_state (current (mgr w)) = ChannelMenu_menu \<Longrightarrow>
     fst (show_window e w) =
       (case fst (get_channel_info_data e w) of
          Inl ex \<Rightarrow> Inl ex
        | Inr v \<Rightarrow> Inr \<lparr>win_text = cv_channel_data v, win_toggle = Some (cv_op_button v)\<rparr>)"
  "ctx_state (current (mgr w)) = BotMenu_menu \<Longrightarrow>
     fst (show_window e w) =
       (case fst (get_bot_info_data e w) of
          Inl ex \<Rightarrow> Inl ex
        | Inr v \<Rightarrow> Inr \<lparr>win_text = bv_bot_data v, win_toggle = Some (bv_op_button v)\<rparr>)"
  by (simp_all add: show_window_def split: prod.splits sum.splits)

text \<open>
  C8, as the code has it. The detail window of a channel, in the detail state with a key
  in the start data and the lookup answering. The window drawn carries the getter's text
  and, always, the toggle button with the getter's label. If no channel has the key, the
  text is the "not found" text and the label the dash; the button is live: pressing it
  runs the toggle handler, which looks the channel up again (for a non-zero key) and
  changes neither the store nor the manager while the channel is still absent. If the
  channel is stored, the text is the card with the id in decimal (reading it back gives
  the id), the name, the handle (the "not given" text when it is missing or empty), the
  status mark and the URL, and the label is the "remove" label if the stored status
  equals "True" and the "add" label otherwise. The same holds for a bot, whose card has
  the name, the handle, the status mark and the URL. The three labels differ.
\<close>

theorem detail_view:
  "(ctx_start_data (current (mgr w)) = Some sd \<and> sd_channel_id sd = Some k \<and>
    ctx_state (current (mgr w)) = ChannelMenu_menu \<and> \<not> fails e (Get_channel (Some k)) \<longrightarrow>
      fst (show_window e w) =
        (case fst (get_channel_info_data e w) of
           Inl ex \<Rightarrow> Inl ex
         | Inr v \<Rightarrow> Inr \<lparr>win_text = cv_channel_data v, win_toggle = Some (cv_op_button v)\<rparr>) \<and>
      (get_channel (db w) k = None \<longrightarrow>
         fst (get_channel_info_data e w) =
           Inr \<lparr>cv_channel_data = lit_channel_not_found, cv_op_button = lit_dash\<rparr> \<and>
         db (handle_toggle_channel_op_status e' (snd (get_channel_info_data e w))) = db w \<and>
         mgr (handle_toggle_channel_op_status e' (snd (get_channel_info_data e w))) =
           mgr (snd (get_channel_info_data e w)) \<and>
         (k \<noteq> 0 \<longrightarrow>
            calls_made (snd (get_channel_info_data e w))
              (handle_toggle_channel_op_status e' (snd (get_channel_info_data e w))) =
            [Get_channel (Some k)])) \<and>
      (get_channel (db w) k = Some c \<longrightarrow>
         fst (get_channel_info_data e w) =
           Inr \<lparr>cv_channel_data =
                  lit_channel_head @
                  lit_id_open @ str_int (c_id c) @ lit_id_close @
                  lit_name @ c_name c @ [10] @
                  lit_username @
                    (case c_username c of None \<Rightarrow> lit_not_given
                     | Some h \<Rightarrow> if h = [] then lit_not_given else h) @ [10] @
                  lit_status @
                    (if c_status c = str_lit ''True'' then lit_active else lit_inactive) @ [10] @
                  lit_link @ c_url c @ [10],
                cv_op_button =
                  (if c_status c = str_lit ''True'' then lit_remove_from_op
                   else lit_add_to_op)\<rparr> \<and>
         read_decimal (str_int (c_id c)) = c_id c)) \<and>
   (ctx_start_data (current (mgr w)) = Some sd \<and> sd_bot_username sd = Some u \<and>
    ctx_state (current (mgr w)) = BotMenu_menu \<and> \<not> fails e (Get_bot (Some u)) \<longrightarrow>
      fst (show_window e w) =
        (case fst (get_bot_info_data e w) of
           Inl ex \<Rightarrow> Inl ex
         | Inr v \<Rightarrow> Inr \<lparr>win_text = bv_bot_data v, win_toggle = Some (bv_op_button v)\<rparr>) \<and>
      (get_bot (db w) u = None \<longrightarrow>
         fst (get_bot_info_data e w) =
           Inr \<lparr>bv_bot_data = lit_bot_not_found, bv_op_button = lit_dash\<rparr> \<and>
         db (handle_toggle_bot_op_status e' (snd (get_bot_info_data e w))) = db w \<and>
         mgr (handle_toggle_bot_op_status e' (snd (get_bot_info_data e w))) =
           mgr (snd (get_bot_info_data e w)) \<and>
         (u \<noteq> [] \<longrightarrow>
            calls_made (snd (get_bot_info_data e w))
              (handle_toggle_bot_op_status e' (snd (get_bot_info_data e w))) =
            [Get_bot (Some u)])) \<and>
      (get_bot (db w) u = Some b \<longrightarrow>
         fst (get_bot_info_data e w) =
           Inr \<lparr>bv_bot_data =
                  lit_bot_head @
                  lit_name @ b_name b @ [10] @
                  lit_username @ b_username b @ [10] @
                  lit_status @
                    (if b_status b = str_lit ''True'' then lit_active else lit_inactive) @ [10] @
                  lit_link @ b_url b @ [10],
                bv_op_button =
                  (if b_status b = str_lit ''True'' then lit_remove_from_op
                   else lit_add_to_op)\<rparr>)) \<and>
   lit_remove_from_op \<noteq> lit_add_to_op \<and> lit_dash \<noteq> lit_remove_from_op \<and>
   lit_dash \<noteq> lit_add_to_op"
proof (intro conjI)
  show "ctx_start_data (current (mgr w)) = Some sd \<and> sd_channel_id sd = Some k \<and>
    ctx_state (current (mgr w)) = ChannelMenu_menu \<and> \<not> fails e (Get_channel (Some k)) \<longrightarrow>
      fst (show_window e w) =
        (case fst (get_channel_info_data e w) of
           Inl ex \<Rightarrow> Inl ex
         | Inr v \<Rightarrow> Inr \<lparr>win_text = cv_channel_data v, win_toggle = Some (cv_op_button v)\<rparr>) \<and>
      (get_channel (db w) k = None \<longrightarrow>
         fst (get_channel_info_data e w) =
           Inr \<lparr>cv_channel_data = lit_channel_not_found, cv_op_button = lit_dash\<rparr> \<and>
         db (handle_toggle_channel_op_status e' (snd (get_channel_info_data e w))) = db w \<and>
         mgr (handle_toggle_channel_op_status e' (snd (get_channel_info_data e w))) =
           mgr (snd (get_channel_info_data e w)) \<and>
         (k \<noteq> 0 \<longrightarrow>
            calls_made (snd (get_channel_info_data e w))
              (handle_toggle_channel_op_status e' (snd (get_channel_info_data e w))) =
            [Get_channel (Some k)])) \<and>
      (get_channel (db w) k = Some c \<longrightarrow>
         fst (get_channel_info_data e w) =
           Inr \<lparr>cv_channel_data =
                  lit_channel_head @
                  lit_id_open @ str_int (c_id c) @ lit_id_close @
                  lit_name @ c_name c @ [10] @
                  lit_username @
                    (case c_username c of None \<Rightarrow> lit_not_given
                     | Some h \<Rightarrow> if h = [] then lit_not_given else h) @ [10] @
                  lit_status @
                    (if c_status c = str_lit ''True'' then lit_active else lit_inactive) @ [10] @
                  lit_link @ c_url c @ [10],
                cv_op_button =
                  (if c_status c = str_lit ''True'' then lit_remove_from_op
                   else lit_add_to_op)\<rparr> \<and>
         read_decimal (str_int (c_id c)) = c_id c)"
  proof (intro impI, elim conjE)
    assume h: "ctx_start_data (current (mgr w)) = Some sd" "sd_channel_id sd = Some k"
      "ctx_state (current (mgr w)) = ChannelMenu_menu" "\<not> fails e (Get_channel (Some k))"
    have win: "fst (show_window e w) =
        (case fst (get_channel_info_data e w) of
           Inl ex \<Rightarrow> Inl ex
         | Inr v \<Rightarrow> Inr \<lparr>win_text = cv_channel_data v, win_toggle = Some (cv_op_button v)\<rparr>)"
      using h(3) by (rule detail_windows)
    have absent: "fst (get_channel_info_data e w) =
           Inr \<lparr>cv_channel_data = lit_channel_not_found, cv_op_button = lit_dash\<rparr> \<and>
         db (handle_toggle_channel_op_status e' (snd (get_channel_info_data e w))) = db w \<and>
         mgr (handle_toggle_channel_op_status e' (snd (get_channel_info_data e w))) =
           mgr (snd (get_channel_info_data e w)) \<and>
         (k \<noteq> 0 \<longrightarrow>
            calls_made (snd (get_channel_info_data e w))
              (handle_toggle_channel_op_status e' (snd (get_channel_info_data e w))) =
            [Get_channel (Some k)])"
      if "get_channel (db w) k = None"
      using channel_view_absent [OF h that] by (intro conjI)
    have present: "fst (get_channel_info_data e w) =
           Inr \<lparr>cv_channel_data =
                  lit_channel_head @
                  lit_id_open @ str_int (c_id c) @ lit_id_close @
                  lit_name @ c_name c @ [10] @
                  lit_username @
                    (case c_username c of None \<Rightarrow> lit_not_given
                     | Some h \<Rightarrow> if h = [] then lit_not_given else h) @ [10] @
                  lit_status @
                    (if c_status c = str_lit ''True'' then lit_active else lit_inactive) @ [10] @
                  lit_link @ c_url c @ [10],
                cv_op_button =
                  (if c_status c = str_lit ''True'' then lit_remove_from_op
                   else lit_add_to_op)\<rparr> \<and>
         read_decimal (str_int (c_id c)) = c_id c"
      if "get_channel (db w) k = Some c"
      using channel_view_present [OF h(1,2,4) that] read_decimal_str_int by (intro conjI)
    from win absent present show "fst (show_window e w) =
        (case fst (get_channel_info_data e w) of
           Inl ex \<Rightarrow> Inl ex
         | Inr v \<Rightarrow> Inr \<lparr>win_text = cv_channel_data v, win_toggle = Some (cv_op_button v)\<rparr>) \<and>
      (get_channel (db w) k = None \<longrightarrow>
         fst (get_channel_info_data e w) =
           Inr \<lparr>cv_channel_data = lit_channel_not_found, cv_op_button = lit_dash\<rparr> \<and>
         db (handle_toggle_channel_op_status e' (snd (get_channel_info_data e w))) = db w \<and>
         mgr (handle_toggle_channel_op_status e' (snd (get_channel_info_data e w))) =
           mgr (snd (get_channel_info_data e w)) \<and>
         (k \<noteq> 0 \<longrightarrow>
            calls_made (snd (get_channel_info_data e w))
              (handle_toggle_channel_op_status e' (snd (get_channel_info_data e w))) =
            [Get_channel (Some k)])) \<and>
      (get_channel (db w) k = Some c \<longrightarrow>
         fst (get_channel_info_data e w) =
           Inr \<lparr>cv_channel_data =
                  lit_channel_head @
                  lit_id_open @ str_int (c_id c) @ lit_id_close @
                  lit_name @ c_name c @ [10] @
                  lit_username @
                    (case c_username c of None \<Rightarrow> lit_not_given
                     | Some h \<Rightarrow> if h = [] then lit_not_given else h) @ [10] @
                  lit_status @
                    (if c_status c = str_lit ''True'' then lit_active else lit_inactive) @ [10] @
                  lit_link @ c_url c @ [10],
                cv_op_button =
                  (if c_status c = str_lit ''True'' then lit_remove_from_op
                   else lit_add_to_op)\<rparr> \<and>
         read_decimal (str_int (c_id c)) = c_id c)"
      by blast
  qed
  show "ctx_start_data (current (mgr w)) = Some sd \<and> sd_bot_username sd = Some u \<and>
    ctx_state (current (mgr w)) = BotMenu_menu \<and> \<not> fails e (Get_bot (Some u)) \<longrightarrow>
      fst (show_window e w) =
        (case fst (get_bot_info_data e w) of
           Inl ex \<Rightarrow> Inl ex
         | Inr v \<Rightarrow> Inr \<lparr>win_text = bv_bot_data v, win_toggle = Some (bv_op_button v)\<rparr>) \<and>
      (get_bot (db w) u = None \<longrightarrow>
         fst (get_bot_info_data e w) =
           Inr \<lparr>bv_bot_data = lit_bot_not_found, bv_op_button = lit_dash\<rparr> \<and>
         db (handle_toggle_bot_op_status e' (snd (get_bot_info_data e w))) = db w \<and>
         mgr (handle_toggle_bot_op_status e' (snd (get_bot_info_data e w))) =
           mgr (snd (get_bot_info_data e w)) \<and>
         (u \<noteq> [] \<longrightarrow>
            calls_made (snd (get_bot_info_data e w))
              (handle_toggle_bot_op_status e' (snd (get_bot_info_data e w))) =
            [Get_bot (Some u)])) \<and>
      (get_bot (db w) u = Some b \<longrightarrow>
         fst (get_bot_info_data e w) =
           Inr \<lparr>bv_bot_data =
                  lit_bot_head @
                  lit_name @ b_name b @ [10] @
                  lit_username @ b_username b @ [10] @
                  lit_status @
                    (if b_status b = str_lit ''True'' then lit_active else lit_inactive) @ [10] @
                  lit_link @ b_url b @ [10],
                bv_op_button =
                  (if b_status b = str_lit ''True'' then lit_remove_from_op
                   else lit_add_to_op)\<rparr>)"
  proof (intro impI, elim conjE)
    assume h: "ctx_start_data (current (mgr w)) = Some sd" "sd_bot_username sd = Some u"
      "ctx_state (current (mgr w)) = BotMenu_menu" "\<not> fails e (Get_bot (Some u))"
    have win: "fst (show_window e w) =
        (case fst (get_bot_info_data e w) of
           Inl ex \<Rightarrow> Inl ex
         | Inr v \<Rightarrow> Inr \<lparr>win_text = bv_bot_data v, win_toggle = Some (bv_op_button v)\<rparr>)"
      using h(3) by (rule detail_windows)
    have absent: "fst (get_bot_info_data e w) =
           Inr \<lparr>bv_bot_data = lit_bot_not_found, bv_op_button = lit_dash\<rparr> \<and>
         db (handle_toggle_bot_op_status e' (snd (get_bot_info_data e w))) = db w \<and>
         mgr (handle_toggle_bot_op_status e' (snd (get_bot_info_data e w))) =
           mgr (snd (get_bot_info_data e w)) \<and>
         (u \<noteq> [] \<longrightarrow>
            calls_made (snd (get_bot_info_data e w))
              (handle_toggle_bot_op_status e' (snd (get_bot_info_data e w))) =
            [Get_bot (Some u)])"
      if "get_bot (db w) u = None"
      using bot_view_absent [OF h that] by (intro conjI)
    have present: "fst (get_bot_info_data e w) =
           Inr \<lparr>bv_bot_data =
                  lit_bot_head @
                  lit_name @ b_name b @ [10] @
                  lit_username @ b_username b @ [10] @
                  lit_status @
                    (if b_status b = str_lit ''True'' then lit_active else lit_inactive) @ [10] @
                  lit_link @ b_url b @ [10],
                bv_op_button =
                  (if b_status b = str_lit ''True'' then lit_remove_from_op
                   else lit_add_to_op)\<rparr>"
      if "get_bot (db w) u = Some b"
      using h(1,2,4) that by (rule bot_view_present)
    from win absent present show "fst (show_window e w) =
        (case fst (get_bot_info_data e w) of
           Inl ex \<Rightarrow> Inl ex
         | Inr v \<Rightarrow> Inr \<lparr>win_text = bv_bot_data v, win_toggle = Some (bv_op_button v)\<rparr>) \<and>
      (get_bot (db w) u = None \<longrightarrow>
         fst (get_bot_info_data e w) =
           Inr \<lparr>bv_bot_data = lit_bot_not_found, bv_op_button = lit_dash\<rparr> \<and>
         db (handle_toggle_bot_op_status e' (snd (get_bot_info_data e w))) = db w \<and>
         mgr (handle_toggle_bot_op_status e' (snd (get_bot_info_data e w))) =
           mgr (snd (get_bot_info_data e w)) \<and>
         (u \<noteq> [] \<longrightarrow>
            calls_made (snd (get_bot_info_data e w))
              (handle_toggle_bot_op_status e' (snd (get_bot_info_data e w))) =
            [Get_bot (Some u)])) \<and>
      (get_bot (db w) u = Some b \<longrightarrow>
         fst (get_bot_info_data e w) =
           Inr \<lparr>bv_bot_data =
                  lit_bot_head @
                  lit_name @ b_name b @ [10] @
                  lit_username @ b_username b @ [10] @
                  lit_status @
                    (if b_status b = str_lit ''True'' then lit_active else lit_inactive) @ [10] @
                  lit_link @ b_url b @ [10],
                bv_op_button =
                  (if b_status b = str_lit ''True'' then lit_remove_from_op
                   else lit_add_to_op)\<rparr>)"
      by blast
  qed
  show "lit_remove_from_op \<noteq> lit_add_to_op" "lit_dash \<noteq> lit_remove_from_op"
    "lit_dash \<noteq> lit_add_to_op"
    by (rule op_button_labels)+
qed

lemma str_int_555: "str_int 555 = str_lit ''555''"
  by (simp add: str_int_def str_nat.simps str_lit_def)

theorem detail_view_witness:
  "(get_channel (db detail_999) 999 = None \<and>
    fst (show_window no_faults detail_999) =
      Inr \<lparr>win_text = lit_channel_not_found, win_toggle = Some lit_dash\<rparr> \<and>
    db (handle_toggle_channel_op_status no_faults (snd (get_channel_info_data no_faults detail_999))) =
      one_each) \<and>
   (let w = in_dialog one_each ChannelMenu_menu
              (Some \<lparr>sd_channel_id = Some 555, sd_bot_username = None\<rparr>) empty_dialog_data
    in get_channel (db w) 555 = Some (mk_channel 555 ''examplechan'' ''True'') \<and>
       fst (show_window no_faults w) =
         Inr \<lparr>win_text =
                lit_channel_head @
                lit_id_open @ str_lit ''555'' @ lit_id_close @
                lit_name @ str_lit ''examplechan'' @ [10] @
                lit_username @ str_lit ''examplechan'' @ [10] @
                lit_status @ lit_active @ [10] @
                lit_link @ str_lit ''https://t.me/examplechan'' @ [10],
              win_toggle = Some lit_remove_from_op\<rparr>) \<and>
   (let w = in_dialog one_each BotMenu_menu
              (Some \<lparr>sd_channel_id = None, sd_bot_username = Some (str_lit ''helper_bot'')\<rparr>)
              empty_dialog_data
    in get_bot (db w) (str_lit ''helper_bot'') = Some (mk_bot ''Helper'' ''helper_bot'' ''False'') \<and>
       fst (show_window no_faults w) =
         Inr \<lparr>win_text =
                lit_bot_head @
                lit_name @ str_lit ''Helper'' @ [10] @
                lit_username @ str_lit ''helper_bot'' @ [10] @
                lit_status @ lit_inactive @ [10] @
                lit_link @ str_lit ''https://t.me/helper_bot'' @ [10],
              win_toggle = Some lit_add_to_op\<rparr>)"
  using
    detail_view [where w = detail_999
      and sd = "\<lparr>sd_channel_id = Some 999, sd_bot_username = None\<rparr>"
      and e = no_faults and e' = no_faults and k = 999]
    detail_view [where
      w = "in_dialog one_each ChannelMenu_menu
             (Some \<lparr>sd_channel_id = Some 555, sd_bot_username = None\<rparr>) empty_dialog_data"
      and sd = "\<lparr>sd_channel_id = Some 555, sd_bot_username = None\<rparr>"
      and e = no_faults and k = 555 and c = "mk_channel 555 ''examplechan'' ''True''"]
    detail_view [where
      w = "in_dialog one_each BotMenu_menu
             (Some \<lparr>sd_channel_id = None, sd_bot_username = Some (str_lit ''helper_bot'')\<rparr>)
             empty_dialog_data"
      and sd = "\<lparr>sd_channel_id = None, sd_bot_username = Some (str_lit ''helper_bot'')\<rparr>"
      and e = no_faults and u = "str_lit ''helper_bot''"
      and b = "mk_bot ''Helper'' ''helper_bot'' ''False''"]
  by (auto simp add: get_channel_def get_bot_def no_faults_def one_each_def mk_channel_def
      mk_bot_def in_dialog_def detail_999_def str_int_555 str_lit_append Let_def)

text \<open>
  C8 as stated fails: the window of an absent channel carries the toggle button, labelled
  with the dash; pressing it issues a store lookup, and it toggles the channel if that
  has been stored in the meantime. The button is not disabled.
\<close>

theorem detail_view_counterexample:
  "get_channel (db detail_999) 999 = None \<and>
   fst (show_window no_faults detail_999) =
     Inr \<lparr>win_text = lit_channel_not_found, win_toggle = Some lit_dash\<rparr> \<and>
   calls_made (snd (show_window no_faults detail_999))
     (handle_toggle_channel_op_status no_faults (snd (show_window no_faults detail_999))) =
     [Get_channel (Some 999)] \<and>
   get_channel (db (handle_toggle_channel_op_status no_faults
        ((snd (show_window no_faults detail_999))\<lparr>db := late_999\<rparr>))) 999 =
     Some (mk_channel 999 ''late'' ''False'')"
  by (simp add: show_window_def get_channel_info_data_def handle_toggle_channel_op_status_def
      get_channel_def update_channel_status_def detail_999_def late_999_def world_defs
      example_defs Let_def)

end
